theory Spec2Isabelle
  imports Complex_Main "HOL-Library.Multiset" "HOL-Library.Log_Nat"
begin

section \<open>Data model\<close>

text \<open>
  The analytical core of \<^verbatim>\<open>src/frontend/services/smcService.ts\<close> is embedded.
  A JavaScript \<^verbatim>\<open>number\<close> is modelled as a \<^typ>\<open>real\<close>: comparisons and the
  control flow they decide are those of the source, while IEEE rounding and the values
  \<^verbatim>\<open>NaN\<close> and \<^verbatim>\<open>-Infinity\<close> are outside the model (the one \<^verbatim>\<open>Infinity\<close> the source
  writes out, for the profit factor, is a constructor of its own). Where the source
  divides by zero (an equity, a starting capital or an entry price of zero) it yields
  \<^verbatim>\<open>NaN\<close> or an infinity; the model's value there is the \<open>x / 0 = 0\<close> of HOL and stands
  for nothing in the source. The Backtest Simulator is therefore embedded twice: with
  this exact arithmetic, for the claims about which trades are opened and closed, and,
  further down, with the rounding, the infinities and the \<^verbatim>\<open>NaN\<close> of the source, for
  the claim about the value of the final equity. Candle times are epoch seconds,
  modelled as \<^typ>\<open>int\<close>.
  Field names carry a prefix because record fields share one name space.
\<close>

record Candle =
  c_time :: int
  c_open :: real
  c_high :: real
  c_low :: real
  c_close :: real

datatype swing_type = SwingHigh | SwingLow

record SwingPoint =
  sp_time :: int
  sp_price :: real
  sp_type :: swing_type

record Swings =
  highs :: "SwingPoint list"
  lows :: "SwingPoint list"

datatype error = TypeError | TooManyCombinations nat

definition ebind :: "error + 'a \<Rightarrow> ('a \<Rightarrow> error + 'b) \<Rightarrow> error + 'b" where
  "ebind m f = (case m of Inl e \<Rightarrow> Inl e | Inr x \<Rightarrow> f x)"

section \<open>Swing Detector\<close>

text \<open>
  \<^verbatim>\<open>data[i]\<close> for a JavaScript number \<open>i\<close>: the element when \<open>i\<close> is an index of the
  array, \<^verbatim>\<open>undefined\<close> otherwise (also for a fractional or negative \<open>i\<close>). Reading a
  property of \<^verbatim>\<open>undefined\<close> throws a TypeError, which \<open>elem\<close> returns.
\<close>

definition at_index :: "'a list \<Rightarrow> real \<Rightarrow> 'a option" where
  "at_index xs i =
     (if 0 \<le> i \<and> i = of_int \<lfloor>i\<rfloor> \<and> i < real (length xs) then Some (xs ! nat \<lfloor>i\<rfloor>) else None)"

definition elem :: "'a list \<Rightarrow> real \<Rightarrow> error + 'a" where
  "elem xs i = (case at_index xs i of None \<Rightarrow> Inl TypeError | Some x \<Rightarrow> Inr x)"

text \<open>The short-circuit \<^verbatim>\<open>a || b\<close> of two conditions that may throw.\<close>

definition or_else :: "error + bool \<Rightarrow> error + bool \<Rightarrow> error + bool" where
  "or_else a b = (case a of Inl e \<Rightarrow> Inl e | Inr t \<Rightarrow> if t then Inr True else b)"

text \<open>
  The conditions of the inner loop body of \<^verbatim>\<open>findSwingPoints\<close> (lines 308 and 309):
  \<^verbatim>\<open>data[i].high < data[i - j].high || data[i].high <= data[i + j].high\<close> and
  \<^verbatim>\<open>data[i].low > data[i - j].low || data[i].low >= data[i + j].low\<close>.
\<close>

definition not_high :: "Candle list \<Rightarrow> real \<Rightarrow> nat \<Rightarrow> error + bool" where
  "not_high data i j =
     or_else
       (ebind (elem data i) (\<lambda>ci. ebind (elem data (i - real j)) (\<lambda>cl.
          Inr (c_high ci < c_high cl))))
       (ebind (elem data i) (\<lambda>ci. ebind (elem data (i + real j)) (\<lambda>cr.
          Inr (c_high ci \<le> c_high cr))))"

definition not_low :: "Candle list \<Rightarrow> real \<Rightarrow> nat \<Rightarrow> error + bool" where
  "not_low data i j =
     or_else
       (ebind (elem data i) (\<lambda>ci. ebind (elem data (i - real j)) (\<lambda>cl.
          Inr (c_low ci > c_low cl))))
       (ebind (elem data i) (\<lambda>ci. ebind (elem data (i + real j)) (\<lambda>cr.
          Inr (c_low ci \<ge> c_low cr))))"

text \<open>
  The inner loop \<^verbatim>\<open>for (let j = 1; j <= lookback; j++)\<close>, carrying the two flags
  \<^verbatim>\<open>isHigh\<close> and \<^verbatim>\<open>isLow\<close>.
\<close>

function inner_loop ::
  "Candle list \<Rightarrow> real \<Rightarrow> real \<Rightarrow> nat \<Rightarrow> bool \<Rightarrow> bool \<Rightarrow> error + bool \<times> bool" where
  "inner_loop data lookback i j isHigh isLow =
     (if real j \<le> lookback then
        ebind (not_high data i j) (\<lambda>nh.
        ebind (not_low data i j) (\<lambda>nl.
          inner_loop data lookback i (j + 1)
            (if nh then False else isHigh) (if nl then False else isLow)))
      else Inr (isHigh, isLow))"
  by pat_completeness auto
termination
proof (relation "measure (\<lambda>(data, lookback, i, j, isHigh, isLow). nat \<lfloor>lookback\<rfloor> + 1 - j)")
  show "wf (measure (\<lambda>(data, lookback, i, j, isHigh, isLow). nat \<lfloor>lookback\<rfloor> + 1 - j))"
    by simp
next
  fix data :: "Candle list" and lookback i :: real and j :: nat and isHigh isLow x xa :: bool
  assume "real j \<le> lookback"
  then have "int j \<le> \<lfloor>lookback\<rfloor>" by (simp add: le_floor_iff)
  then show "((data, lookback, i, j + 1, if x then False else isHigh, if xa then False else isLow),
              (data, lookback, i, j, isHigh, isLow))
             \<in> measure (\<lambda>(data, lookback, i, j, isHigh, isLow). nat \<lfloor>lookback\<rfloor> + 1 - j)"
    by simp
qed

declare inner_loop.simps [simp del]

text \<open>
  The outer loop \<^verbatim>\<open>for (let i = lookback; i < data.length - lookback; i++)\<close>; the two
  result arrays are threaded through.
\<close>

function outer_loop ::
  "Candle list \<Rightarrow> real \<Rightarrow> real \<Rightarrow> SwingPoint list \<Rightarrow> SwingPoint list \<Rightarrow> error + Swings" where
  "outer_loop data lookback i hs ls =
     (if i < real (length data) - lookback then
        ebind (inner_loop data lookback i 1 True True) (\<lambda>(isHigh, isLow).
        ebind (if isHigh
               then ebind (elem data i) (\<lambda>c.
                      Inr (hs @ [\<lparr>sp_time = c_time c, sp_price = c_high c, sp_type = SwingHigh\<rparr>]))
               else Inr hs) (\<lambda>hs'.
        ebind (if isLow
               then ebind (elem data i) (\<lambda>c.
                      Inr (ls @ [\<lparr>sp_time = c_time c, sp_price = c_low c, sp_type = SwingLow\<rparr>]))
               else Inr ls) (\<lambda>ls'.
          outer_loop data lookback (i + 1) hs' ls')))
      else Inr \<lparr>highs = hs, lows = ls\<rparr>)"
  by pat_completeness auto
termination
proof (relation "measure (\<lambda>(data, lookback, i, hs, ls). nat \<lceil>real (length data) - lookback - i\<rceil>)")
  show "wf (measure (\<lambda>(data, lookback, i, hs, ls). nat \<lceil>real (length data) - lookback - i\<rceil>))"
    by simp
next
  fix data :: "Candle list" and lookback i :: real and hs ls :: "SwingPoint list"
    and x :: "bool \<times> bool" and xa y :: bool and xb xc :: "SwingPoint list"
  assume "i < real (length data) - lookback"
  then have "0 < real (length data) - lookback - i" by simp
  then have "0 < \<lceil>real (length data) - lookback - i\<rceil>" by (simp add: ceiling_less_iff)
  moreover have "\<lceil>real (length data) - lookback - (i + 1)\<rceil> = \<lceil>real (length data) - lookback - i\<rceil> - 1"
    by (metis ceiling_diff_one diff_diff_eq)
  ultimately show "((data, lookback, i + 1, xb, xc), (data, lookback, i, hs, ls))
      \<in> measure (\<lambda>(data, lookback, i, hs, ls). nat \<lceil>real (length data) - lookback - i\<rceil>)"
    by simp
qed

declare outer_loop.simps [simp del]

definition findSwingPoints :: "Candle list \<Rightarrow> real \<Rightarrow> error + Swings" where
  "findSwingPoints data lookback =
     (if real (length data) < lookback * 2 + 1 then Inr \<lparr>highs = [], lows = []\<rparr>
      else outer_loop data lookback lookback [] [])"

text \<open>
  The conditions under which the loops flag index \<open>i\<close>, for a lookback that is a
  natural number: what the inner loop leaves in \<^verbatim>\<open>isHigh\<close> and \<^verbatim>\<open>isLow\<close>.
\<close>

definition swing_high_at :: "Candle list \<Rightarrow> nat \<Rightarrow> nat \<Rightarrow> bool" where
  "swing_high_at data lookback i =
     (\<forall>j \<in> {1..lookback}. c_high (data ! (i - j)) \<le> c_high (data ! i) \<and>
                          c_high (data ! (i + j)) < c_high (data ! i))"

definition swing_low_at :: "Candle list \<Rightarrow> nat \<Rightarrow> nat \<Rightarrow> bool" where
  "swing_low_at data lookback i =
     (\<forall>j \<in> {1..lookback}. c_low (data ! i) \<le> c_low (data ! (i - j)) \<and>
                          c_low (data ! i) < c_low (data ! (i + j)))"

definition high_point :: "Candle \<Rightarrow> SwingPoint" where
  "high_point c = \<lparr>sp_time = c_time c, sp_price = c_high c, sp_type = SwingHigh\<rparr>"

definition low_point :: "Candle \<Rightarrow> SwingPoint" where
  "low_point c = \<lparr>sp_time = c_time c, sp_price = c_low c, sp_type = SwingLow\<rparr>"

text \<open>A candle written as its five fields, for concrete series.\<close>

definition mk_candle :: "int \<Rightarrow> real \<Rightarrow> real \<Rightarrow> real \<Rightarrow> real \<Rightarrow> Candle" where
  "mk_candle t op hi lo cl = \<lparr>c_time = t, c_open = op, c_high = hi, c_low = lo, c_close = cl\<rparr>"

section \<open>Sorting and searching arrays\<close>

text \<open>
  \<^verbatim>\<open>Array.prototype.sort\<close> belongs to the language, not to the repository. With a
  comparator it orders \<open>a\<close> before \<open>b\<close> when the comparator is negative, after when it
  is positive, and keeps the input order otherwise (the sort is stable; a \<^verbatim>\<open>NaN\<close>
  result counts as zero). It is modelled by a stable insertion sort.
\<close>

datatype cmp_result = Negative | ZeroOrNaN | Positive

definition num_cmp :: "real \<Rightarrow> cmp_result" where
  "num_cmp x = (if x < 0 then Negative else if x > 0 then Positive else ZeroOrNaN)"

fun insort_cmp :: "('a \<Rightarrow> 'a \<Rightarrow> cmp_result) \<Rightarrow> 'a \<Rightarrow> 'a list \<Rightarrow> 'a list" where
  "insort_cmp cmp x [] = [x]"
| "insort_cmp cmp x (y # ys) =
     (if cmp x y = Positive then y # insort_cmp cmp x ys else x # y # ys)"

definition js_sort :: "('a \<Rightarrow> 'a \<Rightarrow> cmp_result) \<Rightarrow> 'a list \<Rightarrow> 'a list" where
  "js_sort cmp xs = foldr (insort_cmp cmp) xs []"

text \<open>\<^verbatim>\<open>xs.pop()\<close> and \<^verbatim>\<open>xs[0]\<close> as values: \<^verbatim>\<open>undefined\<close> on the empty array.\<close>

definition pop_last :: "'a list \<Rightarrow> 'a option" where
  "pop_last xs = (if xs = [] then None else Some (last xs))"

definition first_elem :: "'a list \<Rightarrow> 'a option" where
  "first_elem xs = (case xs of [] \<Rightarrow> None | x # _ \<Rightarrow> Some x)"

text \<open>\<^verbatim>\<open>xs.findIndex(p)\<close>; the result \<open>-1\<close> of the source is \<open>None\<close>.\<close>

fun findIndex :: "('a \<Rightarrow> bool) \<Rightarrow> 'a list \<Rightarrow> nat option" where
  "findIndex p [] = None"
| "findIndex p (x # xs) = (if p x then Some 0 else map_option Suc (findIndex p xs))"

text \<open>A loop over an array whose body may throw.\<close>

fun efold :: "('a \<Rightarrow> 's \<Rightarrow> error + 's) \<Rightarrow> 'a list \<Rightarrow> 's \<Rightarrow> error + 's" where
  "efold f [] s = Inr s"
| "efold f (x # xs) s = ebind (f x s) (efold f xs)"

section \<open>Structure Analyzer and Entry Tracker\<close>

datatype direction = Bullish | Bearish

datatype sl_type = SlStructure | SlFixed

record BOS =
  bos_time :: int
  bos_price :: real

record CHoCH =
  choch_time :: int
  choch_price :: real

record POI =
  startTime :: int
  endTime :: int
  top :: real
  bottom :: real
  direction :: direction

datatype Drawing = DrawBOS BOS | DrawPOI POI | DrawCHoCH CHoCH

record TradeSignal =
  sig_entryTime :: int
  sig_entryPrice :: real
  sig_stopLoss :: real
  sig_takeProfit :: real
  sig_type :: direction

text \<open>The fields of \<^verbatim>\<open>Settings\<close> that the analytical core reads.\<close>

record Settings =
  htfSwingLookback :: real
  ltfChochLookback :: real
  discountZone :: real
  useFvgFilter :: bool
  useLiquiditySweepFilter :: bool
  initialCapital :: real
  orderSizePercent :: real
  rrRatio :: real
  commissionPercent :: real
  filterByCommission :: bool
  slType :: sl_type
  fixedSlValue :: real

record ChartData =
  htf :: "Candle list"
  mtf :: "Candle list"
  ltf :: "Candle list"

record SMCAnalysisResult =
  an_trades :: "TradeSignal list"
  an_drawings :: "Drawing list"

text \<open>
  The body of \<^verbatim>\<open>for (const obCandle of [...mtfCandlesInLeg].reverse())\<close> of the bullish
  analysis (lines 357 to 377); \<open>level\<close> is \<^verbatim>\<open>discountLevel\<close> and \<open>legEnd\<close> is
  \<^verbatim>\<open>currentHigh.time\<close>.
\<close>

definition bullish_ob :: "Settings \<Rightarrow> Candle list \<Rightarrow> real \<Rightarrow> int \<Rightarrow> Candle \<Rightarrow> POI list \<Rightarrow> POI list" where
  "bullish_ob settings mtfData level legEnd obCandle potentialPois =
     (if c_open obCandle > c_close obCandle \<and> c_high obCandle < level then
        (let poi = \<lparr>startTime = c_time obCandle, endTime = legEnd, top = c_high obCandle,
                    bottom = c_low obCandle, direction = Bullish\<rparr>
         in if useFvgFilter settings then
              (case findIndex (\<lambda>c. c_time c = c_time obCandle) mtfData of
                 None \<Rightarrow> potentialPois
               | Some obCandleIndex \<Rightarrow>
                   if obCandleIndex + 2 \<ge> length mtfData then potentialPois
                   else if c_low (mtfData ! (obCandleIndex + 2)) \<le> c_high obCandle then potentialPois
                   else potentialPois @ [poi])
            else potentialPois @ [poi])
      else potentialPois)"

definition bearish_ob :: "Settings \<Rightarrow> Candle list \<Rightarrow> real \<Rightarrow> int \<Rightarrow> Candle \<Rightarrow> POI list \<Rightarrow> POI list" where
  "bearish_ob settings mtfData level legEnd obCandle potentialPois =
     (if c_open obCandle < c_close obCandle \<and> c_low obCandle > level then
        (let poi = \<lparr>startTime = c_time obCandle, endTime = legEnd, top = c_high obCandle,
                    bottom = c_low obCandle, direction = Bearish\<rparr>
         in if useFvgFilter settings then
              (case findIndex (\<lambda>c. c_time c = c_time obCandle) mtfData of
                 None \<Rightarrow> potentialPois
               | Some obCandleIndex \<Rightarrow>
                   if obCandleIndex + 2 \<ge> length mtfData then potentialPois
                   else if c_high (mtfData ! (obCandleIndex + 2)) \<ge> c_low obCandle then potentialPois
                   else potentialPois @ [poi])
            else potentialPois @ [poi])
      else potentialPois)"

text \<open>
  One iteration of \<^verbatim>\<open>for (let i = 1; i < htfSwingHighs.length; i++)\<close> (lines 334 to 379)
  on the pair \<^verbatim>\<open>htfSwingHighs[i - 1]\<close>, \<^verbatim>\<open>htfSwingHighs[i]\<close>. The source sorts
  \<^verbatim>\<open>htfSwings.lows\<close> in place, so \<^verbatim>\<open>htfSwings.lows\<close> and \<^verbatim>\<open>htfSwingLows\<close> are one
  array, the parameter \<open>htfSwingLows\<close>.
\<close>

definition bullish_step ::
  "Settings \<Rightarrow> Candle list \<Rightarrow> SwingPoint list \<Rightarrow> SwingPoint \<Rightarrow> SwingPoint \<Rightarrow>
   Drawing list \<times> POI list \<Rightarrow> Drawing list \<times> POI list" where
  "bullish_step settings mtfData htfSwingLows prevHigh currentHigh acc =
     (case acc of (allDrawings, potentialPois) \<Rightarrow>
      if sp_price currentHigh > sp_price prevHigh then
        (let bos = \<lparr>bos_time = sp_time currentHigh, bos_price = sp_price prevHigh\<rparr>;
             allDrawings' = allDrawings @ [DrawBOS bos]
         in case first_elem (js_sort (\<lambda>a b. num_cmp (sp_price a - sp_price b))
                    (filter (\<lambda>l. sp_time l > sp_time prevHigh \<and> sp_time l < sp_time currentHigh)
                       htfSwingLows)) of
              None \<Rightarrow> (allDrawings', potentialPois)
            | Some impulseLowCandle \<Rightarrow>
                if useLiquiditySweepFilter settings \<and>
                   (case pop_last (filter (\<lambda>l. sp_time l < sp_time impulseLowCandle) htfSwingLows) of
                      None \<Rightarrow> True
                    | Some priorLow \<Rightarrow> sp_price impulseLowCandle \<ge> sp_price priorLow)
                then (allDrawings', potentialPois)
                else
                  (let discountLevel = sp_price impulseLowCandle +
                         (sp_price currentHigh - sp_price impulseLowCandle) * discountZone settings;
                       mtfCandlesInLeg = filter (\<lambda>c. c_time c \<ge> sp_time impulseLowCandle \<and>
                                                     c_time c \<le> sp_time currentHigh) mtfData
                   in (allDrawings',
                       fold (bullish_ob settings mtfData discountLevel (sp_time currentHigh))
                         (rev mtfCandlesInLeg) potentialPois)))
      else (allDrawings, potentialPois))"

definition bearish_step ::
  "Settings \<Rightarrow> Candle list \<Rightarrow> SwingPoint list \<Rightarrow> SwingPoint \<Rightarrow> SwingPoint \<Rightarrow>
   Drawing list \<times> POI list \<Rightarrow> Drawing list \<times> POI list" where
  "bearish_step settings mtfData htfSwingHighs prevLow currentLow acc =
     (case acc of (allDrawings, potentialPois) \<Rightarrow>
      if sp_price currentLow < sp_price prevLow then
        (let bos = \<lparr>bos_time = sp_time currentLow, bos_price = sp_price prevLow\<rparr>;
             allDrawings' = allDrawings @ [DrawBOS bos]
         in case first_elem (js_sort (\<lambda>a b. num_cmp (sp_price b - sp_price a))
                    (filter (\<lambda>h. sp_time h > sp_time prevLow \<and> sp_time h < sp_time currentLow)
                       htfSwingHighs)) of
              None \<Rightarrow> (allDrawings', potentialPois)
            | Some impulseHighCandle \<Rightarrow>
                if useLiquiditySweepFilter settings \<and>
                   (case pop_last (filter (\<lambda>h. sp_time h < sp_time impulseHighCandle) htfSwingHighs) of
                      None \<Rightarrow> True
                    | Some priorHigh \<Rightarrow> sp_price impulseHighCandle \<le> sp_price priorHigh)
                then (allDrawings', potentialPois)
                else
                  (let premiumLevel = sp_price impulseHighCandle -
                         (sp_price impulseHighCandle - sp_price currentLow) * discountZone settings;
                       mtfCandlesInLeg = filter (\<lambda>c. c_time c \<ge> sp_time impulseHighCandle \<and>
                                                     c_time c \<le> sp_time currentLow) mtfData
                   in (allDrawings',
                       fold (bearish_ob settings mtfData premiumLevel (sp_time currentLow))
                         (rev mtfCandlesInLeg) potentialPois)))
      else (allDrawings, potentialPois))"

text \<open>
  The de-duplication of lines 427 to 431: an element stays when it is the first of the
  sorted array with its \<^verbatim>\<open>startTime\<close>, \<^verbatim>\<open>top\<close> and \<^verbatim>\<open>bottom\<close>.
\<close>

definition dedup_pois :: "POI list \<Rightarrow> POI list" where
  "dedup_pois self =
     map snd (filter (\<lambda>(index, poi).
        Some index = findIndex (\<lambda>p. startTime p = startTime poi \<and> top p = top poi \<and>
                                      bottom p = bottom poi) self)
        (enumerate 0 self))"

text \<open>
  The state of the loop over the low-timeframe candles (lines 437 to 528): the two
  variables \<^verbatim>\<open>monitoredPoi\<close> and \<^verbatim>\<open>ltfDataForChoch\<close>, the queue \<^verbatim>\<open>activePois\<close>, and
  the two output arrays.
\<close>

record TrackerState =
  monitoredPoi :: "POI option"
  ltfDataForChoch :: "Candle list"
  activePois :: "POI list"
  allTrades :: "TradeSignal list"
  allDrawings :: "Drawing list"

text \<open>\<^verbatim>\<open>monitoredPoi = null; ltfDataForChoch = [];\<close>\<close>

definition reset_monitor :: "TrackerState \<Rightarrow> TrackerState" where
  "reset_monitor s = s\<lparr>monitoredPoi := None, ltfDataForChoch := []\<rparr>"

text \<open>\<^verbatim>\<open>if (!allTrades.some(t => t.entryTime === entryOB.time)) allTrades.push(...)\<close>\<close>

definition push_signal :: "TradeSignal \<Rightarrow> TrackerState \<Rightarrow> TrackerState" where
  "push_signal sg s =
     (if \<not> list_ex (\<lambda>t. sig_entryTime t = sig_entryTime sg) (allTrades s)
      then s\<lparr>allTrades := allTrades s @ [sg]\<rparr> else s)"

text \<open>The bullish branch, lines 458 to 484; the buffer already holds the current candle.\<close>

definition bullish_choch :: "Settings \<Rightarrow> Candle \<Rightarrow> Swings \<Rightarrow> TrackerState \<Rightarrow> TrackerState" where
  "bullish_choch settings currentLtfCandle ltfLocalSwings s =
     (case pop_last (highs ltfLocalSwings) of
        None \<Rightarrow> s
      | Some lastLtfHigh \<Rightarrow>
          if c_high currentLtfCandle > sp_price lastLtfHigh then
            (let choch = \<lparr>choch_time = c_time currentLtfCandle, choch_price = sp_price lastLtfHigh\<rparr>;
                 s1 = s\<lparr>allDrawings := allDrawings s @ [DrawCHoCH choch]\<rparr>
             in case pop_last (filter (\<lambda>l. sp_time l < choch_time choch) (lows ltfLocalSwings)) of
                  None \<Rightarrow> reset_monitor s1
                | Some chochLowPoint \<Rightarrow>
                    (let entryLegCandles = filter (\<lambda>c. c_time c \<ge> sp_time chochLowPoint \<and>
                                                       c_time c \<le> choch_time choch) (ltfDataForChoch s)
                     in case find (\<lambda>c. c_open c > c_close c) (rev entryLegCandles) of
                          None \<Rightarrow> reset_monitor s1
                        | Some entryOB \<Rightarrow>
                            (let entryPrice = c_high entryOB;
                                 stopLoss = (if slType settings = SlStructure then sp_price chochLowPoint
                                             else entryPrice * (1 - (fixedSlValue settings / 100)));
                                 risk = entryPrice - stopLoss
                             in if risk > 0 then
                                  reset_monitor (push_signal
                                    \<lparr>sig_entryTime = c_time entryOB, sig_entryPrice = entryPrice,
                                     sig_stopLoss = stopLoss,
                                     sig_takeProfit = entryPrice + (risk * rrRatio settings),
                                     sig_type = Bullish\<rparr> s1)
                                else reset_monitor s1)))
          else s)"

text \<open>The bearish branch, lines 485 to 512.\<close>

definition bearish_choch :: "Settings \<Rightarrow> Candle \<Rightarrow> Swings \<Rightarrow> TrackerState \<Rightarrow> TrackerState" where
  "bearish_choch settings currentLtfCandle ltfLocalSwings s =
     (case pop_last (lows ltfLocalSwings) of
        None \<Rightarrow> s
      | Some lastLtfLow \<Rightarrow>
          if c_low currentLtfCandle < sp_price lastLtfLow then
            (let choch = \<lparr>choch_time = c_time currentLtfCandle, choch_price = sp_price lastLtfLow\<rparr>;
                 s1 = s\<lparr>allDrawings := allDrawings s @ [DrawCHoCH choch]\<rparr>
             in case pop_last (filter (\<lambda>h. sp_time h < choch_time choch) (highs ltfLocalSwings)) of
                  None \<Rightarrow> reset_monitor s1
                | Some chochHighPoint \<Rightarrow>
                    (let entryLegCandles = filter (\<lambda>c. c_time c \<ge> sp_time chochHighPoint \<and>
                                                       c_time c \<le> choch_time choch) (ltfDataForChoch s)
                     in case find (\<lambda>c. c_open c < c_close c) (rev entryLegCandles) of
                          None \<Rightarrow> reset_monitor s1
                        | Some entryOB \<Rightarrow>
                            (let entryPrice = c_low entryOB;
                                 stopLoss = (if slType settings = SlStructure then sp_price chochHighPoint
                                             else entryPrice * (1 + (fixedSlValue settings / 100)));
                                 risk = stopLoss - entryPrice
                             in if risk > 0 then
                                  reset_monitor (push_signal
                                    \<lparr>sig_entryTime = c_time entryOB, sig_entryPrice = entryPrice,
                                     sig_stopLoss = stopLoss,
                                     sig_takeProfit = entryPrice - (risk * rrRatio settings),
                                     sig_type = Bearish\<rparr> s1)
                                else reset_monitor s1)))
          else s)"

text \<open>\<^verbatim>\<open>hasEntered\<close>, line 517.\<close>

definition hasEntered :: "Candle \<Rightarrow> POI \<Rightarrow> bool" where
  "hasEntered c poi =
     ((direction poi = Bullish \<and> c_low c \<le> top poi \<and> c_high c \<ge> bottom poi) \<or>
      (direction poi = Bearish \<and> c_high c \<ge> bottom poi \<and> c_low c \<le> top poi))"

text \<open>
  The body of the loop over the low-timeframe candles. The elements of \<^verbatim>\<open>activePois\<close>
  differ pairwise in \<^verbatim>\<open>startTime\<close>, \<^verbatim>\<open>top\<close> or \<^verbatim>\<open>bottom\<close> after the de-duplication,
  so the reference comparison \<^verbatim>\<open>p !== poi\<close> is the comparison of the values.
\<close>

definition ltf_step :: "Settings \<Rightarrow> Candle \<Rightarrow> TrackerState \<Rightarrow> error + TrackerState" where
  "ltf_step settings currentLtfCandle s =
     (case monitoredPoi s of
        Some poi \<Rightarrow>
          if (direction poi = Bullish \<and> c_low currentLtfCandle < bottom poi) \<or>
             (direction poi = Bearish \<and> c_high currentLtfCandle > top poi)
          then Inr (reset_monitor s)
          else
            (let s1 = s\<lparr>ltfDataForChoch := ltfDataForChoch s @ [currentLtfCandle]\<rparr>
             in if real (length (ltfDataForChoch s1)) < ltfChochLookback settings * 2 + 1 then Inr s1
                else ebind (findSwingPoints (ltfDataForChoch s1) (ltfChochLookback settings))
                  (\<lambda>ltfLocalSwings.
                     Inr (if direction poi = Bullish
                          then bullish_choch settings currentLtfCandle ltfLocalSwings s1
                          else bearish_choch settings currentLtfCandle ltfLocalSwings s1)))
      | None \<Rightarrow>
          (case find (\<lambda>poi. \<not> c_time currentLtfCandle < startTime poi \<and>
                             hasEntered currentLtfCandle poi) (activePois s) of
             None \<Rightarrow> Inr s
           | Some poi \<Rightarrow>
               Inr (s\<lparr>monitoredPoi := Some poi, ltfDataForChoch := [currentLtfCandle],
                      activePois := filter (\<lambda>p. p \<noteq> poi) (activePois s)\<rparr>)))"

definition time_cmp :: "int \<Rightarrow> int \<Rightarrow> cmp_result" where
  "time_cmp a b = num_cmp (real_of_int a - real_of_int b)"

text \<open>
  Lines 327 to 431: the drawings of the breaks of structure and the de-duplicated points of
  interest, from the swings of the high timeframe.
\<close>

definition find_pois :: "Settings \<Rightarrow> Candle list \<Rightarrow> Swings \<Rightarrow> Drawing list \<times> POI list" where
  "find_pois settings mtfData htfSwings =
     (let htfSwingHighs = js_sort (\<lambda>a b. time_cmp (sp_time a) (sp_time b)) (highs htfSwings);
          htfSwingLows = js_sort (\<lambda>a b. time_cmp (sp_time a) (sp_time b)) (lows htfSwings);
          bullish = fold (\<lambda>i. bullish_step settings mtfData htfSwingLows
                                (htfSwingHighs ! (i - 1)) (htfSwingHighs ! i))
                      [1..<length htfSwingHighs] ([], []);
          bearish = fold (\<lambda>i. bearish_step settings mtfData htfSwingHighs
                                (htfSwingLows ! (i - 1)) (htfSwingLows ! i))
                      [1..<length htfSwingLows] bullish
      in (fst bearish,
          dedup_pois (js_sort (\<lambda>a b. time_cmp (startTime a) (startTime b)) (snd bearish))))"

text \<open>
  Line 433: \<^verbatim>\<open>activePois.forEach(p => allDrawings.push({ type: 'POI', data: { ...p,
  endTime: ltf[ltf.length - 1].time } }))\<close>.
\<close>

definition draw_pois :: "Candle list \<Rightarrow> POI list \<Rightarrow> Drawing list \<Rightarrow> error + Drawing list" where
  "draw_pois ltfData pois ds =
     efold (\<lambda>p ds'.
        ebind (elem ltfData (real (length ltfData) - 1)) (\<lambda>lastCandle.
          Inr (ds' @ [DrawPOI (p\<lparr>endTime := c_time lastCandle\<rparr>)])))
       pois ds"

definition analyzeSMC :: "ChartData \<Rightarrow> Settings \<Rightarrow> error + SMCAnalysisResult" where
  "analyzeSMC chartData settings =
     (if real (length (htf chartData)) < htfSwingLookback settings * 2 + 1 \<or>
         length (mtf chartData) < 10 \<or> length (ltf chartData) < 10
      then Inr \<lparr>an_trades = [], an_drawings = []\<rparr>
      else
        ebind (findSwingPoints (htf chartData) (htfSwingLookback settings)) (\<lambda>htfSwings.
          (case find_pois settings (mtf chartData) htfSwings of
             (ds, pois) \<Rightarrow>
               ebind (draw_pois (ltf chartData) pois ds) (\<lambda>ds'.
               ebind (efold (ltf_step settings) (ltf chartData)
                        \<lparr>monitoredPoi = None, ltfDataForChoch = [], activePois = pois,
                         allTrades = [], allDrawings = ds'\<rparr>) (\<lambda>s.
                 Inr \<lparr>an_trades = js_sort (\<lambda>a b. time_cmp (sig_entryTime a) (sig_entryTime b))
                                   (allTrades s),
                      an_drawings = allDrawings s\<rparr>)))))"

text \<open>A settings value for concrete runs.\<close>

definition example_settings :: Settings where
  "example_settings =
     \<lparr>htfSwingLookback = 1, ltfChochLookback = 1, discountZone = 1/2, useFvgFilter = False,
      useLiquiditySweepFilter = False, initialCapital = 1000, orderSizePercent = 1,
      rrRatio = 2, commissionPercent = 0, filterByCommission = False, slType = SlStructure,
      fixedSlValue = 1\<rparr>"

section \<open>Backtest Simulator\<close>

datatype outcome = Win | Loss | Open

text \<open>The profit factor is a number or the \<^verbatim>\<open>Infinity\<close> of line 663.\<close>

datatype jsnum = Num real | Infinity

record ExecutedTrade =
  signalTime :: int
  entryTime :: "int option"
  exitTime :: "int option"
  entryPrice :: real
  exitPrice :: "real option"
  outcome :: outcome
  pnl :: real
  equity :: real
  trade_type :: direction
  slPrice :: real
  tpPrice :: real
  returnOnEquityPercent :: real
  leverage :: int

record BacktestResults =
  trades :: "ExecutedTrade list"
  maxDrawdown :: real
  maxDrawdownAmount :: real
  netProfitPercent :: real
  winRate :: real
  profitFactor :: jsnum
  finalEquity :: real
  totalTrades :: nat

text \<open>
  The variables of \<^verbatim>\<open>runBacktest\<close>. \<^verbatim>\<open>activeTrade\<close> is a reference to an object that
  is also an element of \<^verbatim>\<open>executedTrades\<close> (line 641 pushes it, lines 583 to 588 write to
  it through \<^verbatim>\<open>activeTrade\<close>): it is the index of that element.
\<close>

record BacktestState =
  st_equity :: real
  st_peakEquity :: real
  st_maxDrawdown :: real
  st_maxDrawdownAmount :: real
  executedTrades :: "ExecutedTrade list"
  activeTrade :: "nat option"
  pendingSignals :: "TradeSignal list"

text \<open>Lines 553 to 562: the outcome and the exit price, \<^verbatim>\<open>null\<close> as \<open>None\<close>.\<close>

definition hitSL :: "Candle \<Rightarrow> ExecutedTrade \<Rightarrow> bool" where
  "hitSL candle t =
     (if trade_type t = Bullish then c_low candle \<le> slPrice t else c_high candle \<ge> slPrice t)"

definition hitTP :: "Candle \<Rightarrow> ExecutedTrade \<Rightarrow> bool" where
  "hitTP candle t =
     (if trade_type t = Bullish then c_high candle \<ge> tpPrice t else c_low candle \<le> tpPrice t)"

definition exit_check :: "Candle \<Rightarrow> ExecutedTrade \<Rightarrow> outcome option \<times> real option" where
  "exit_check candle t =
     (if hitSL candle t then (Some Loss, Some (slPrice t))
      else if hitTP candle t then (Some Win, Some (tpPrice t))
      else (None, None))"

text \<open>Lines 565 to 571: \<^verbatim>\<open>netPnl\<close> of the trade \<open>t\<close> closed with the given outcome.\<close>

definition net_pnl :: "Settings \<Rightarrow> outcome \<Rightarrow> ExecutedTrade \<Rightarrow> real" where
  "net_pnl settings oc t =
     (let equityBefore = equity t;
          amountToRisk = \<bar>pnl t\<bar>;
          positionValue = real_of_int (leverage t) * equityBefore;
          finalPnl = (if oc = Win then amountToRisk * rrRatio settings else - amountToRisk);
          finalCommissionCost = positionValue * (commissionPercent settings / 100) * 2
      in finalPnl - finalCommissionCost)"

text \<open>
  Lines 573 to 590: the trade at index \<open>a\<close> is closed with the given outcome. The sum
  \<open>st_equity s + netPnl\<close> is exact; \<open>close_trade_fp\<close> below is the same step with the
  rounded addition of \<^verbatim>\<open>equity += netPnl\<close>.
\<close>

definition close_trade :: "Settings \<Rightarrow> Candle \<Rightarrow> nat \<Rightarrow> outcome \<Rightarrow> real \<Rightarrow> BacktestState \<Rightarrow> BacktestState" where
  "close_trade settings candle a oc exitPrice' s =
     (let t = executedTrades s ! a;
          equityBefore = equity t;
          netPnl = net_pnl settings oc t;
          equity' = st_equity s + netPnl;
          peakEquity' = (if equity' > st_peakEquity s then equity' else st_peakEquity s);
          drawdownPercent = (if peakEquity' > 0 then ((peakEquity' - equity') / peakEquity') * 100 else 0);
          t' = t\<lparr>outcome := oc, exitTime := Some (c_time candle), exitPrice := Some exitPrice',
                 pnl := netPnl, equity := equity',
                 returnOnEquityPercent := (netPnl / equityBefore) * 100\<rparr>
      in s\<lparr>st_equity := equity',
           st_peakEquity := peakEquity',
           st_maxDrawdown := (if drawdownPercent > st_maxDrawdown s then drawdownPercent
                              else st_maxDrawdown s),
           st_maxDrawdownAmount := (if drawdownPercent > st_maxDrawdown s then peakEquity' - equity'
                                    else st_maxDrawdownAmount s),
           executedTrades := (executedTrades s)[a := t'],
           activeTrade := None\<rparr>)"

text \<open>
  Step 1 of the candle loop, lines 549 to 592. The guard \<^verbatim>\<open>if (outcome && exitPrice)\<close>
  tests the truthiness of a number: an exit price of zero does not pass it.
\<close>

definition close_phase :: "Settings \<Rightarrow> Candle \<Rightarrow> BacktestState \<Rightarrow> BacktestState" where
  "close_phase settings candle s =
     (case activeTrade s of
        None \<Rightarrow> s
      | Some a \<Rightarrow>
          (case exit_check candle (executedTrades s ! a) of
             (Some oc, Some exitPrice') \<Rightarrow>
               if exitPrice' \<noteq> 0 then close_trade settings candle a oc exitPrice' s else s
           | _ \<Rightarrow> s))"

text \<open>
  Lines 605 to 639: the trade a signal opens, or \<open>None\<close> where the source says
  \<^verbatim>\<open>continue\<close>. The quotient under the ceiling is exact, and it is the \<open>0\<close> of HOL
  at an equity of zero; \<open>open_trade_fp\<close> below is the same step with the rounded quotient
  of the source, which is \<^verbatim>\<open>NaN\<close> at an equity of zero and can lie above an integer
  that the exact quotient equals (lemmas \<open>leverage_rounded_up\<close> and
  \<open>equity_zero_gives_nan\<close>).
\<close>

definition open_trade :: "Settings \<Rightarrow> Candle \<Rightarrow> real \<Rightarrow> TradeSignal \<Rightarrow> ExecutedTrade option" where
  "open_trade settings candle equityBefore signal =
     (let amountToRiskOriginal = equityBefore * (orderSizePercent settings / 100);
          riskPerUnit = \<bar>sig_entryPrice signal - sig_stopLoss signal\<bar>
      in if riskPerUnit \<le> 0 then None
         else
           (let positionSizeInUnitsOriginal = amountToRiskOriginal / riskPerUnit;
                positionValueOriginal = positionSizeInUnitsOriginal * sig_entryPrice signal
            in if filterByCommission settings \<and>
                  amountToRiskOriginal * rrRatio settings
                    \<le> positionValueOriginal * (commissionPercent settings / 100) * 2
               then None
               else
                 (let exactLeverage = positionValueOriginal / equityBefore;
                      appliedLeverage = \<lceil>exactLeverage\<rceil>;
                      finalPositionValue = equityBefore * real_of_int appliedLeverage;
                      finalPositionSizeInUnits = finalPositionValue / sig_entryPrice signal;
                      finalAmountToRisk = finalPositionSizeInUnits * riskPerUnit
                  in Some \<lparr>signalTime = sig_entryTime signal,
                           entryTime = Some (c_time candle),
                           exitTime = None,
                           entryPrice = sig_entryPrice signal,
                           exitPrice = None,
                           outcome = Open,
                           pnl = finalAmountToRisk,
                           equity = equityBefore,
                           trade_type = sig_type signal,
                           slPrice = sig_stopLoss signal,
                           tpPrice = sig_takeProfit signal,
                           returnOnEquityPercent = 0,
                           leverage = appliedLeverage\<rparr>)))"

text \<open>\<^verbatim>\<open>isBullishEntry || isBearishEntry\<close>, lines 601 to 604.\<close>

definition isEntry :: "Candle \<Rightarrow> TradeSignal \<Rightarrow> bool" where
  "isEntry candle signal =
     ((sig_type signal = Bullish \<and> c_low candle \<le> sig_entryPrice signal \<and>
         c_high candle \<ge> sig_entryPrice signal) \<or>
      (sig_type signal = Bearish \<and> c_high candle \<ge> sig_entryPrice signal \<and>
         c_low candle \<le> sig_entryPrice signal))"

text \<open>
  The scan \<^verbatim>\<open>for (let i = 0; i < pendingSignals.length; i++)\<close>, lines 596 to 646:
  \<open>skipped\<close> holds \<^verbatim>\<open>pendingSignals[0..i-1]\<close>. It returns the opened trade and the
  array after \<^verbatim>\<open>pendingSignals.splice(i, 1)\<close>, or \<open>None\<close> when the loop ends without a
  trade.
\<close>

fun scan_signals ::
  "Settings \<Rightarrow> Candle \<Rightarrow> real \<Rightarrow> TradeSignal list \<Rightarrow> TradeSignal list \<Rightarrow>
   (ExecutedTrade \<times> TradeSignal list) option" where
  "scan_signals settings candle equityNow skipped [] = None"
| "scan_signals settings candle equityNow skipped (signal # rest) =
     (if c_time candle < sig_entryTime signal
      then scan_signals settings candle equityNow (skipped @ [signal]) rest
      else if isEntry candle signal then
        (case open_trade settings candle equityNow signal of
           None \<Rightarrow> scan_signals settings candle equityNow (skipped @ [signal]) rest
         | Some t \<Rightarrow> Some (t, skipped @ rest))
      else scan_signals settings candle equityNow (skipped @ [signal]) rest)"

text \<open>Step 2 of the candle loop, lines 595 to 647.\<close>

definition open_phase :: "Settings \<Rightarrow> Candle \<Rightarrow> BacktestState \<Rightarrow> BacktestState" where
  "open_phase settings candle s =
     (case activeTrade s of
        Some a \<Rightarrow> s
      | None \<Rightarrow>
          (case scan_signals settings candle (st_equity s) [] (pendingSignals s) of
             None \<Rightarrow> s
           | Some (t, pending') \<Rightarrow>
               s\<lparr>executedTrades := executedTrades s @ [t],
                 activeTrade := Some (length (executedTrades s)),
                 pendingSignals := pending'\<rparr>))"

definition candle_step :: "Settings \<Rightarrow> Candle \<Rightarrow> BacktestState \<Rightarrow> BacktestState" where
  "candle_step settings candle s = open_phase settings candle (close_phase settings candle s)"

text \<open>\<^verbatim>\<open>startingEquity ?? settings.initialCapital\<close>\<close>

definition initialCapitalForRun :: "Settings \<Rightarrow> real option \<Rightarrow> real" where
  "initialCapitalForRun settings startingEquity =
     (case startingEquity of None \<Rightarrow> initialCapital settings | Some e \<Rightarrow> e)"

definition initial_state :: "TradeSignal list \<Rightarrow> Settings \<Rightarrow> real option \<Rightarrow> BacktestState" where
  "initial_state tradeSignals settings startingEquity =
     \<lparr>st_equity = initialCapitalForRun settings startingEquity,
      st_peakEquity = initialCapitalForRun settings startingEquity,
      st_maxDrawdown = 0,
      st_maxDrawdownAmount = 0,
      executedTrades = [],
      activeTrade = None,
      pendingSignals = js_sort (\<lambda>a b. time_cmp (sig_entryTime a) (sig_entryTime b)) tradeSignals\<rparr>"

text \<open>The state after the loop \<^verbatim>\<open>for (const candle of ltfData)\<close>.\<close>

definition run_candles :: "Settings \<Rightarrow> Candle list \<Rightarrow> BacktestState \<Rightarrow> BacktestState" where
  "run_candles settings ltfData s = fold (candle_step settings) ltfData s"

text \<open>Lines 650 to 674: the aggregation.\<close>

definition aggregate :: "real \<Rightarrow> BacktestState \<Rightarrow> BacktestResults" where
  "aggregate initialCapital' s =
     (let closedTrades = filter (\<lambda>t. outcome t \<noteq> Open) (executedTrades s);
          totalTrades' = length closedTrades
      in if totalTrades' = 0 then
           \<lparr>trades = executedTrades s, maxDrawdown = 0, maxDrawdownAmount = 0,
            netProfitPercent = 0, winRate = 0, profitFactor = Num 0,
            finalEquity = st_equity s, totalTrades = 0\<rparr>
         else
           (let wins = length (filter (\<lambda>t. outcome t = Win) closedTrades);
                winRate' = (if totalTrades' > 0 then (real wins / real totalTrades') * 100 else 0);
                finalEquity' = st_equity s;
                netProfitPercent' = ((finalEquity' - initialCapital') / initialCapital') * 100;
                totalWinPnl = foldl (\<lambda>sum t. sum + pnl t) 0
                                (filter (\<lambda>t. outcome t = Win) closedTrades);
                totalLossPnl = \<bar>foldl (\<lambda>sum t. sum + pnl t) 0
                                 (filter (\<lambda>t. outcome t = Loss) closedTrades)\<bar>
            in \<lparr>trades = executedTrades s,
                maxDrawdown = st_maxDrawdown s,
                maxDrawdownAmount = st_maxDrawdownAmount s,
                netProfitPercent = netProfitPercent',
                winRate = winRate',
                profitFactor = (if totalLossPnl > 0 then Num (totalWinPnl / totalLossPnl) else Infinity),
                finalEquity = finalEquity',
                totalTrades = totalTrades'\<rparr>))"

definition runBacktest ::
  "Candle list \<Rightarrow> TradeSignal list \<Rightarrow> Settings \<Rightarrow> real option \<Rightarrow> BacktestResults" where
  "runBacktest ltfData tradeSignals settings startingEquity =
     aggregate (initialCapitalForRun settings startingEquity)
       (run_candles settings ltfData (initial_state tradeSignals settings startingEquity))"

section \<open>Optimizer\<close>

record OptimizerParameter =
  p_enabled :: bool
  p_start :: real
  p_end :: real
  p_step :: real

text \<open>
  The metric the caller selects. \<^verbatim>\<open>targetMetric\<close> has the type
  \<^verbatim>\<open>keyof BacktestResults\<close> and the comparator reads \<^verbatim>\<open>a.results[metric] as number\<close>;
  the constructors are the keys whose value is a number.
\<close>

datatype metric =
  M_maxDrawdown | M_maxDrawdownAmount | M_netProfitPercent | M_winRate | M_profitFactor
| M_finalEquity | M_totalTrades

record OptimizerSettings =
  opt_htfSwingLookback :: OptimizerParameter
  opt_ltfChochLookback :: OptimizerParameter
  opt_discountZone :: OptimizerParameter
  opt_rrRatio :: OptimizerParameter
  targetMetric :: metric

datatype param_key = K_htfSwingLookback | K_ltfChochLookback | K_discountZone | K_rrRatio

text \<open>A \<^verbatim>\<open>Partial<Settings>\<close> built by the optimizer: the overrides of the four swept keys.\<close>

record Params =
  par_htfSwingLookback :: "real option"
  par_ltfChochLookback :: "real option"
  par_discountZone :: "real option"
  par_rrRatio :: "real option"

definition empty_params :: Params where
  "empty_params = \<lparr>par_htfSwingLookback = None, par_ltfChochLookback = None,
                   par_discountZone = None, par_rrRatio = None\<rparr>"

text \<open>\<^verbatim>\<open>{ ...combo, [key]: value }\<close>\<close>

fun set_param :: "param_key \<Rightarrow> real \<Rightarrow> Params \<Rightarrow> Params" where
  "set_param K_htfSwingLookback v combo = combo\<lparr>par_htfSwingLookback := Some v\<rparr>"
| "set_param K_ltfChochLookback v combo = combo\<lparr>par_ltfChochLookback := Some v\<rparr>"
| "set_param K_discountZone v combo = combo\<lparr>par_discountZone := Some v\<rparr>"
| "set_param K_rrRatio v combo = combo\<lparr>par_rrRatio := Some v\<rparr>"

text \<open>\<^verbatim>\<open>{ ...baseSettings, ...params }\<close>\<close>

definition apply_params :: "Settings \<Rightarrow> Params \<Rightarrow> Settings" where
  "apply_params baseSettings params =
     baseSettings\<lparr>
       htfSwingLookback := (case par_htfSwingLookback params of None \<Rightarrow> htfSwingLookback baseSettings | Some v \<Rightarrow> v),
       ltfChochLookback := (case par_ltfChochLookback params of None \<Rightarrow> ltfChochLookback baseSettings | Some v \<Rightarrow> v),
       discountZone := (case par_discountZone params of None \<Rightarrow> discountZone baseSettings | Some v \<Rightarrow> v),
       rrRatio := (case par_rrRatio params of None \<Rightarrow> rrRatio baseSettings | Some v \<Rightarrow> v)\<rparr>"

text \<open>
  The loop \<^verbatim>\<open>for (let v = start; v <= end; v += step) values.push(v)\<close> of line 687. It
  does not end when \<open>start \<le> end\<close> and \<open>step \<le> 0\<close>: not returning is the value \<open>None\<close>.
\<close>

partial_function (option) range_loop :: "real \<Rightarrow> real \<Rightarrow> real \<Rightarrow> real list \<Rightarrow> real list option" where
  "range_loop v end' step values =
     (if v \<le> end' then range_loop (v + step) end' step (values @ [v]) else Some values)"

text \<open>
  The \<^verbatim>\<open>forEach\<close> over \<^verbatim>\<open>Object.keys(optimizerSettings)\<close>, lines 683 to 692, for one key;
  the keys come in the order of the interface \<^verbatim>\<open>OptimizerSettings\<close>.
\<close>

definition add_param ::
  "param_key \<Rightarrow> OptimizerParameter \<Rightarrow> (param_key \<times> real list) list \<Rightarrow> (param_key \<times> real list) list option" where
  "add_param key p paramsToOptimize =
     (if p_enabled p then
        (case range_loop (p_start p) (p_end p) (p_step p) [] of
           None \<Rightarrow> None
         | Some values \<Rightarrow> Some (paramsToOptimize @ [(key, values)]))
      else Some paramsToOptimize)"

definition paramsToOptimize :: "OptimizerSettings \<Rightarrow> (param_key \<times> real list) list option" where
  "paramsToOptimize optimizerSettings =
     Option.bind (add_param K_htfSwingLookback (opt_htfSwingLookback optimizerSettings) []) (\<lambda>ps1.
     Option.bind (add_param K_ltfChochLookback (opt_ltfChochLookback optimizerSettings) ps1) (\<lambda>ps2.
     Option.bind (add_param K_discountZone (opt_discountZone optimizerSettings) ps2) (\<lambda>ps3.
       add_param K_rrRatio (opt_rrRatio optimizerSettings) ps3)))"

text \<open>
  The recursive \<^verbatim>\<open>helper(combo, i)\<close> of lines 699 to 711, on \<^verbatim>\<open>paramsToOptimize[i]\<close> and
  the parameters after it; \<open>i === max\<close> when none is after it. The result is what the
  call pushes to \<^verbatim>\<open>combinations\<close>, in order.
\<close>

fun helper :: "param_key \<times> real list \<Rightarrow> (param_key \<times> real list) list \<Rightarrow> Params \<Rightarrow> Params list" where
  "helper (key, values) [] combo = map (\<lambda>v. set_param key v combo) values"
| "helper (key, values) (p # ps) combo =
     concat (map (\<lambda>v. helper p ps (set_param key v combo)) values)"

definition generateCombinations :: "OptimizerSettings \<Rightarrow> Settings \<Rightarrow> Params list option" where
  "generateCombinations optimizerSettings baseSettings =
     (case paramsToOptimize optimizerSettings of
        None \<Rightarrow> None
      | Some [] \<Rightarrow> Some [empty_params]
      | Some (p # ps) \<Rightarrow> Some (helper p ps empty_params))"

record OptimizationResultRow =
  row_params :: Params
  row_results :: BacktestResults
  row_id :: nat

record OptimizationResults =
  runs :: "OptimizationResultRow list"
  bestRun :: "OptimizationResultRow option"

text \<open>\<^verbatim>\<open>a.results[metric] as number\<close>\<close>

fun metric_value :: "metric \<Rightarrow> BacktestResults \<Rightarrow> jsnum" where
  "metric_value M_maxDrawdown r = Num (maxDrawdown r)"
| "metric_value M_maxDrawdownAmount r = Num (maxDrawdownAmount r)"
| "metric_value M_netProfitPercent r = Num (netProfitPercent r)"
| "metric_value M_winRate r = Num (winRate r)"
| "metric_value M_profitFactor r = profitFactor r"
| "metric_value M_finalEquity r = Num (finalEquity r)"
| "metric_value M_totalTrades r = Num (real (totalTrades r))"

text \<open>
  The sign of \<^verbatim>\<open>x - y\<close> where either may be \<^verbatim>\<open>Infinity\<close>; \<^verbatim>\<open>Infinity - Infinity\<close> is
  \<^verbatim>\<open>NaN\<close>.
\<close>

fun sub_cmp :: "jsnum \<Rightarrow> jsnum \<Rightarrow> cmp_result" where
  "sub_cmp (Num x) (Num y) = num_cmp (x - y)"
| "sub_cmp Infinity (Num y) = Positive"
| "sub_cmp (Num x) Infinity = Negative"
| "sub_cmp Infinity Infinity = ZeroOrNaN"

text \<open>The comparator of lines 741 to 752.\<close>

definition metric_cmp :: "metric \<Rightarrow> OptimizationResultRow \<Rightarrow> OptimizationResultRow \<Rightarrow> cmp_result" where
  "metric_cmp m a b =
     (let valA = metric_value m (row_results a); valB = metric_value m (row_results b)
      in if m = M_maxDrawdown \<or> m = M_maxDrawdownAmount then sub_cmp valA valB
         else sub_cmp valB valA)"

text \<open>One iteration of the loop of lines 729 to 737, for \<^verbatim>\<open>combinations[i]\<close>.\<close>

definition run_combination ::
  "ChartData \<Rightarrow> Settings \<Rightarrow> nat \<Rightarrow> Params \<Rightarrow> error + OptimizationResultRow" where
  "run_combination chartData baseSettings i params =
     (let currentSettings = apply_params baseSettings params
      in ebind (analyzeSMC chartData currentSettings) (\<lambda>analysis.
           Inr \<lparr>row_params = params,
                row_results = runBacktest (ltf chartData) (an_trades analysis) currentSettings None,
                row_id = i\<rparr>))"

fun run_loop ::
  "ChartData \<Rightarrow> Settings \<Rightarrow> nat \<Rightarrow> Params list \<Rightarrow> OptimizationResultRow list \<Rightarrow>
   error + OptimizationResultRow list" where
  "run_loop chartData baseSettings i [] rs = Inr rs"
| "run_loop chartData baseSettings i (params # rest) rs =
     ebind (run_combination chartData baseSettings i params) (\<lambda>r.
       run_loop chartData baseSettings (i + 1) rest (rs @ [r]))"

text \<open>
  \<^verbatim>\<open>runOptimizer\<close>: \<open>None\<close> when the expansion of the grid does not return, otherwise the
  thrown error or the returned value.
\<close>

definition runOptimizer ::
  "ChartData \<Rightarrow> Settings \<Rightarrow> OptimizerSettings \<Rightarrow> (error + OptimizationResults) option" where
  "runOptimizer chartData baseSettings optimizerSettings =
     (case generateCombinations optimizerSettings baseSettings of
        None \<Rightarrow> None
      | Some combinations \<Rightarrow>
          Some (if length combinations > 500 then Inl (TooManyCombinations (length combinations))
                else ebind (run_loop chartData baseSettings 0 combinations []) (\<lambda>rs.
                  if rs = [] then Inr \<lparr>runs = [], bestRun = None\<rparr>
                  else (let sorted = js_sort (metric_cmp (targetMetric optimizerSettings)) rs
                        in Inr \<lparr>runs = sorted, bestRun = first_elem sorted\<rparr>))))"

section \<open>Invariants of the candle loop\<close>

text \<open>The trades the aggregation counts: those whose outcome is not \<open>Open\<close>.\<close>

definition closed_trades :: "ExecutedTrade list \<Rightarrow> ExecutedTrade list" where
  "closed_trades ts = filter (\<lambda>t. outcome t \<noteq> Open) ts"

text \<open>
  The reference \<^verbatim>\<open>activeTrade\<close> is \<^verbatim>\<open>null\<close> and no trade of \<^verbatim>\<open>executedTrades\<close> is
  open, or it is the last element of \<^verbatim>\<open>executedTrades\<close>, which is the one open trade.
\<close>

definition trades_ok :: "BacktestState \<Rightarrow> bool" where
  "trades_ok s =
     (case activeTrade s of
        None \<Rightarrow> (\<forall>t \<in> set (executedTrades s). outcome t \<noteq> Open)
      | Some a \<Rightarrow> Suc a = length (executedTrades s) \<and> outcome (executedTrades s ! a) = Open \<and>
                  (\<forall>t \<in> set (butlast (executedTrades s)). outcome t \<noteq> Open))"

text \<open>The running equity is the starting capital \<open>c\<close> plus the \<^verbatim>\<open>pnl\<close> of the closed trades.\<close>

definition equity_ok :: "real \<Rightarrow> BacktestState \<Rightarrow> bool" where
  "equity_ok c s = (st_equity s = c + sum_list (map pnl (closed_trades (executedTrades s))))"

text \<open>
  Every trade was entered at a candle time not after \<open>now\<close>, and a closed trade was
  closed at a later candle time than it was entered.
\<close>

definition times_ok :: "int \<Rightarrow> BacktestState \<Rightarrow> bool" where
  "times_ok now s =
     (\<forall>t \<in> set (executedTrades s). \<exists>te. entryTime t = Some te \<and> te \<le> now \<and>
        (outcome t \<noteq> Open \<longrightarrow> (\<exists>tx. exitTime t = Some tx \<and> te < tx)))"

text \<open>A signal for concrete runs: long at 100, stop at 95, target at 110.\<close>

definition example_signal :: TradeSignal where
  "example_signal = \<lparr>sig_entryTime = 0, sig_entryPrice = 100, sig_stopLoss = 95,
     sig_takeProfit = 110, sig_type = Bullish\<rparr>"

section \<open>The Backtest Simulator in double arithmetic\<close>

text \<open>
  The amounts of \<^verbatim>\<open>runBacktest\<close> (equity, profit and loss, leverage, drawdown) are
  computed in IEEE 754 double arithmetic: each \<^verbatim>\<open>+\<close>, \<^verbatim>\<open>-\<close>, \<^verbatim>\<open>*\<close> and \<^verbatim>\<open>/\<close>
  rounds its exact result to a double, a result too large is an infinity, and
  \<^verbatim>\<open>0 / 0\<close> is \<^verbatim>\<open>NaN\<close>. A statement about the exact value of a sum of such amounts
  depends on that arithmetic, so the simulator is embedded a second time with it. A
  double is a real number, an infinity or \<^verbatim>\<open>NaN\<close>. The rounding is a parameter
  \<open>rnd\<close>, which takes the exact result of an operation on two finite numbers to the
  value of the operation: \<open>round_double\<close> below is the rounding of the source, and
  \<open>Finite\<close> is arithmetic without rounding. The candles, the signals and the settings
  are finite numbers. The sign of a zero is not modelled: a zero divisor counts as
  \<^verbatim>\<open>+0\<close>, which it is in \<^verbatim>\<open>runBacktest\<close> unless an input is \<^verbatim>\<open>-0\<close>.
\<close>

datatype double = Finite real | PosInfinity | NegInfinity | NaN

text \<open>The unary minus, \<^verbatim>\<open>Math.abs\<close> and \<^verbatim>\<open>Math.ceil\<close>; none of them rounds.\<close>

fun js_neg :: "double \<Rightarrow> double" where
  "js_neg (Finite x) = Finite (- x)"
| "js_neg PosInfinity = NegInfinity"
| "js_neg NegInfinity = PosInfinity"
| "js_neg NaN = NaN"

fun js_abs :: "double \<Rightarrow> double" where
  "js_abs (Finite x) = Finite \<bar>x\<bar>"
| "js_abs PosInfinity = PosInfinity"
| "js_abs NegInfinity = PosInfinity"
| "js_abs NaN = NaN"

fun js_ceil :: "double \<Rightarrow> double" where
  "js_ceil (Finite x) = Finite (of_int \<lceil>x\<rceil>)"
| "js_ceil PosInfinity = PosInfinity"
| "js_ceil NegInfinity = NegInfinity"
| "js_ceil NaN = NaN"

text \<open>The infinity of the given sign; \<^verbatim>\<open>NaN\<close> when the sign is zero.\<close>

definition signed_infinity :: "real \<Rightarrow> double" where
  "signed_infinity s = (if 0 < s then PosInfinity else if s < 0 then NegInfinity else NaN)"

fun js_sign :: "double \<Rightarrow> real" where
  "js_sign (Finite x) = sgn x"
| "js_sign PosInfinity = 1"
| "js_sign NegInfinity = - 1"
| "js_sign NaN = 0"

text \<open>\<^verbatim>\<open>a + b\<close>, \<^verbatim>\<open>a - b\<close>, \<^verbatim>\<open>a * b\<close> and \<^verbatim>\<open>a / b\<close>.\<close>

fun js_add :: "(real \<Rightarrow> double) \<Rightarrow> double \<Rightarrow> double \<Rightarrow> double" where
  "js_add rnd (Finite x) (Finite y) = rnd (x + y)"
| "js_add rnd NaN b = NaN"
| "js_add rnd a NaN = NaN"
| "js_add rnd PosInfinity NegInfinity = NaN"
| "js_add rnd NegInfinity PosInfinity = NaN"
| "js_add rnd PosInfinity b = PosInfinity"
| "js_add rnd NegInfinity b = NegInfinity"
| "js_add rnd (Finite x) b = b"

definition js_sub :: "(real \<Rightarrow> double) \<Rightarrow> double \<Rightarrow> double \<Rightarrow> double" where
  "js_sub rnd a b = js_add rnd a (js_neg b)"

fun js_mul :: "(real \<Rightarrow> double) \<Rightarrow> double \<Rightarrow> double \<Rightarrow> double" where
  "js_mul rnd (Finite x) (Finite y) = rnd (x * y)"
| "js_mul rnd NaN b = NaN"
| "js_mul rnd a NaN = NaN"
| "js_mul rnd a b = signed_infinity (js_sign a * js_sign b)"

fun js_div :: "(real \<Rightarrow> double) \<Rightarrow> double \<Rightarrow> double \<Rightarrow> double" where
  "js_div rnd (Finite x) (Finite y) = (if y = 0 then signed_infinity x else rnd (x / y))"
| "js_div rnd NaN b = NaN"
| "js_div rnd a NaN = NaN"
| "js_div rnd (Finite x) b = Finite 0"
| "js_div rnd a (Finite y) = signed_infinity (js_sign a * (if y < 0 then - 1 else 1))"
| "js_div rnd a b = NaN"

text \<open>\<^verbatim>\<open>a < b\<close> and \<^verbatim>\<open>a <= b\<close>: false when an operand is \<^verbatim>\<open>NaN\<close>.\<close>

fun js_less :: "double \<Rightarrow> double \<Rightarrow> bool" where
  "js_less (Finite x) (Finite y) = (x < y)"
| "js_less NaN b = False"
| "js_less a NaN = False"
| "js_less PosInfinity b = False"
| "js_less a NegInfinity = False"
| "js_less NegInfinity b = True"
| "js_less (Finite x) PosInfinity = True"

definition js_le :: "double \<Rightarrow> double \<Rightarrow> bool" where
  "js_le a b = (js_less a b \<or> (a = b \<and> a \<noteq> NaN))"

text \<open>
  Rounding to the nearest double, ties to the even significand. A double other than zero
  is \<open>m * 2 ^ (e - 52)\<close> with an integer \<open>m\<close> of at most 53 bits and
  \<open>- 1022 \<le> e \<le> 1023\<close>; \<open>exponent_of x\<close> is the \<open>e\<close> with
  \<open>2 ^ e \<le> \<bar>x\<bar> < 2 ^ (e + 1)\<close>, and below \<open>2 ^ - 1022\<close> the doubles are the
  multiples of \<open>2 ^ - 1074\<close>.
\<close>

definition pow2 :: "int \<Rightarrow> real" where
  "pow2 k = (if 0 \<le> k then 2 ^ nat k else 1 / 2 ^ nat (- k))"

definition exponent_of :: "real \<Rightarrow> int" where
  "exponent_of x =
     (if 1 \<le> \<bar>x\<bar> then int (floorlog 2 (nat \<lfloor>\<bar>x\<bar>\<rfloor>)) - 1
      else - int (floorlog 2 (nat (\<lceil>1 / \<bar>x\<bar>\<rceil> - 1))))"

definition round_even :: "real \<Rightarrow> int" where
  "round_even y =
     (if y - of_int \<lfloor>y\<rfloor> < 1 / 2 then \<lfloor>y\<rfloor>
      else if 1 / 2 < y - of_int \<lfloor>y\<rfloor> then \<lfloor>y\<rfloor> + 1
      else if even \<lfloor>y\<rfloor> then \<lfloor>y\<rfloor>
      else \<lfloor>y\<rfloor> + 1)"

text \<open>The nearest multiple of the spacing \<open>q\<close>.\<close>

definition round_to_multiple :: "real \<Rightarrow> real \<Rightarrow> real" where
  "round_to_multiple q x = of_int (round_even (x / q)) * q"

text \<open>A rounded value of \<open>2 ^ 1024\<close> or more is an infinity.\<close>

definition overflow_check :: "real \<Rightarrow> double" where
  "overflow_check y =
     (if 1023 < exponent_of y then (if 0 < y then PosInfinity else NegInfinity) else Finite y)"

definition round_double :: "real \<Rightarrow> double" where
  "round_double x =
     (if x = 0 then Finite 0
      else overflow_check (round_to_multiple (pow2 (max (exponent_of x) (- 1022) - 52)) x))"

text \<open>
  \<^verbatim>\<open>ExecutedTrade\<close>, \<^verbatim>\<open>BacktestResults\<close> and the variables of \<^verbatim>\<open>runBacktest\<close> with
  the computed amounts as doubles. The prices of a trade are copied from the signal.
\<close>

record ExecutedTrade_fp =
  signalTime_fp :: int
  entryTime_fp :: "int option"
  exitTime_fp :: "int option"
  entryPrice_fp :: real
  exitPrice_fp :: "real option"
  outcome_fp :: outcome
  pnl_fp :: double
  equity_fp :: double
  trade_type_fp :: direction
  slPrice_fp :: real
  tpPrice_fp :: real
  returnOnEquityPercent_fp :: double
  leverage_fp :: double

record BacktestResults_fp =
  trades_fp :: "ExecutedTrade_fp list"
  maxDrawdown_fp :: double
  maxDrawdownAmount_fp :: double
  netProfitPercent_fp :: double
  winRate_fp :: double
  profitFactor_fp :: double
  finalEquity_fp :: double
  totalTrades_fp :: nat

record BacktestState_fp =
  st_equity_fp :: double
  st_peakEquity_fp :: double
  st_maxDrawdown_fp :: double
  st_maxDrawdownAmount_fp :: double
  executedTrades_fp :: "ExecutedTrade_fp list"
  activeTrade_fp :: "nat option"
  pendingSignals_fp :: "TradeSignal list"

text \<open>Lines 553 to 562.\<close>

definition hitSL_fp :: "Candle \<Rightarrow> ExecutedTrade_fp \<Rightarrow> bool" where
  "hitSL_fp candle t =
     (if trade_type_fp t = Bullish then c_low candle \<le> slPrice_fp t
      else c_high candle \<ge> slPrice_fp t)"

definition hitTP_fp :: "Candle \<Rightarrow> ExecutedTrade_fp \<Rightarrow> bool" where
  "hitTP_fp candle t =
     (if trade_type_fp t = Bullish then c_high candle \<ge> tpPrice_fp t
      else c_low candle \<le> tpPrice_fp t)"

definition exit_check_fp :: "Candle \<Rightarrow> ExecutedTrade_fp \<Rightarrow> outcome option \<times> real option" where
  "exit_check_fp candle t =
     (if hitSL_fp candle t then (Some Loss, Some (slPrice_fp t))
      else if hitTP_fp candle t then (Some Win, Some (tpPrice_fp t))
      else (None, None))"

text \<open>Lines 565 to 571: \<^verbatim>\<open>netPnl\<close>, one rounding for each operation of the source.\<close>

definition net_pnl_fp :: "(real \<Rightarrow> double) \<Rightarrow> Settings \<Rightarrow> outcome \<Rightarrow> ExecutedTrade_fp \<Rightarrow> double" where
  "net_pnl_fp rnd settings oc t =
     (let equityBefore = equity_fp t;
          amountToRisk = js_abs (pnl_fp t);
          positionValue = js_mul rnd (leverage_fp t) equityBefore;
          finalPnl = (if oc = Win then js_mul rnd amountToRisk (Finite (rrRatio settings))
                      else js_neg amountToRisk);
          finalCommissionCost =
            js_mul rnd
              (js_mul rnd positionValue
                 (js_div rnd (Finite (commissionPercent settings)) (Finite 100)))
              (Finite 2)
      in js_sub rnd finalPnl finalCommissionCost)"

text \<open>Lines 573 to 590. Line 573 is \<^verbatim>\<open>equity += netPnl\<close>: one rounded addition.\<close>

definition close_trade_fp ::
  "(real \<Rightarrow> double) \<Rightarrow> Settings \<Rightarrow> Candle \<Rightarrow> nat \<Rightarrow> outcome \<Rightarrow> real \<Rightarrow>
   BacktestState_fp \<Rightarrow> BacktestState_fp" where
  "close_trade_fp rnd settings candle a oc exitPrice' s =
     (let t = executedTrades_fp s ! a;
          equityBefore = equity_fp t;
          netPnl = net_pnl_fp rnd settings oc t;
          equity' = js_add rnd (st_equity_fp s) netPnl;
          peakEquity' = (if js_less (st_peakEquity_fp s) equity' then equity'
                         else st_peakEquity_fp s);
          drawdownPercent =
            (if js_less (Finite 0) peakEquity'
             then js_mul rnd (js_div rnd (js_sub rnd peakEquity' equity') peakEquity') (Finite 100)
             else Finite 0);
          t' = t\<lparr>outcome_fp := oc, exitTime_fp := Some (c_time candle),
                 exitPrice_fp := Some exitPrice',
                 pnl_fp := netPnl, equity_fp := equity',
                 returnOnEquityPercent_fp :=
                   js_mul rnd (js_div rnd netPnl equityBefore) (Finite 100)\<rparr>
      in s\<lparr>st_equity_fp := equity',
           st_peakEquity_fp := peakEquity',
           st_maxDrawdown_fp :=
             (if js_less (st_maxDrawdown_fp s) drawdownPercent then drawdownPercent
              else st_maxDrawdown_fp s),
           st_maxDrawdownAmount_fp :=
             (if js_less (st_maxDrawdown_fp s) drawdownPercent
              then js_sub rnd peakEquity' equity'
              else st_maxDrawdownAmount_fp s),
           executedTrades_fp := (executedTrades_fp s)[a := t'],
           activeTrade_fp := None\<rparr>)"

text \<open>Step 1 of the candle loop, lines 549 to 592.\<close>

definition close_phase_fp ::
  "(real \<Rightarrow> double) \<Rightarrow> Settings \<Rightarrow> Candle \<Rightarrow> BacktestState_fp \<Rightarrow> BacktestState_fp" where
  "close_phase_fp rnd settings candle s =
     (case activeTrade_fp s of
        None \<Rightarrow> s
      | Some a \<Rightarrow>
          (case exit_check_fp candle (executedTrades_fp s ! a) of
             (Some oc, Some exitPrice') \<Rightarrow>
               if exitPrice' \<noteq> 0 then close_trade_fp rnd settings candle a oc exitPrice' s else s
           | _ \<Rightarrow> s))"

text \<open>
  Lines 605 to 639: the trade a signal opens, or \<open>None\<close> where the source says
  \<^verbatim>\<open>continue\<close>. With an equity of zero \<^verbatim>\<open>exactLeverage\<close> is \<^verbatim>\<open>0 / 0\<close>.
\<close>

definition open_trade_fp ::
  "(real \<Rightarrow> double) \<Rightarrow> Settings \<Rightarrow> Candle \<Rightarrow> double \<Rightarrow> TradeSignal \<Rightarrow> ExecutedTrade_fp option" where
  "open_trade_fp rnd settings candle equityBefore signal =
     (let amountToRiskOriginal =
            js_mul rnd equityBefore (js_div rnd (Finite (orderSizePercent settings)) (Finite 100));
          riskPerUnit =
            js_abs (js_sub rnd (Finite (sig_entryPrice signal)) (Finite (sig_stopLoss signal)))
      in if js_le riskPerUnit (Finite 0) then None
         else
           (let positionSizeInUnitsOriginal = js_div rnd amountToRiskOriginal riskPerUnit;
                positionValueOriginal =
                  js_mul rnd positionSizeInUnitsOriginal (Finite (sig_entryPrice signal))
            in if filterByCommission settings \<and>
                  js_le (js_mul rnd amountToRiskOriginal (Finite (rrRatio settings)))
                    (js_mul rnd
                       (js_mul rnd positionValueOriginal
                          (js_div rnd (Finite (commissionPercent settings)) (Finite 100)))
                       (Finite 2))
               then None
               else
                 (let exactLeverage = js_div rnd positionValueOriginal equityBefore;
                      appliedLeverage = js_ceil exactLeverage;
                      finalPositionValue = js_mul rnd equityBefore appliedLeverage;
                      finalPositionSizeInUnits =
                        js_div rnd finalPositionValue (Finite (sig_entryPrice signal));
                      finalAmountToRisk = js_mul rnd finalPositionSizeInUnits riskPerUnit
                  in Some \<lparr>signalTime_fp = sig_entryTime signal,
                           entryTime_fp = Some (c_time candle),
                           exitTime_fp = None,
                           entryPrice_fp = sig_entryPrice signal,
                           exitPrice_fp = None,
                           outcome_fp = Open,
                           pnl_fp = finalAmountToRisk,
                           equity_fp = equityBefore,
                           trade_type_fp = sig_type signal,
                           slPrice_fp = sig_stopLoss signal,
                           tpPrice_fp = sig_takeProfit signal,
                           returnOnEquityPercent_fp = Finite 0,
                           leverage_fp = appliedLeverage\<rparr>)))"

text \<open>The scan of the pending signals, lines 596 to 646.\<close>

fun scan_signals_fp ::
  "(real \<Rightarrow> double) \<Rightarrow> Settings \<Rightarrow> Candle \<Rightarrow> double \<Rightarrow> TradeSignal list \<Rightarrow> TradeSignal list \<Rightarrow>
   (ExecutedTrade_fp \<times> TradeSignal list) option" where
  "scan_signals_fp rnd settings candle equityNow skipped [] = None"
| "scan_signals_fp rnd settings candle equityNow skipped (signal # rest) =
     (if c_time candle < sig_entryTime signal
      then scan_signals_fp rnd settings candle equityNow (skipped @ [signal]) rest
      else if isEntry candle signal then
        (case open_trade_fp rnd settings candle equityNow signal of
           None \<Rightarrow> scan_signals_fp rnd settings candle equityNow (skipped @ [signal]) rest
         | Some t \<Rightarrow> Some (t, skipped @ rest))
      else scan_signals_fp rnd settings candle equityNow (skipped @ [signal]) rest)"

text \<open>Step 2 of the candle loop, lines 595 to 647.\<close>

definition open_phase_fp ::
  "(real \<Rightarrow> double) \<Rightarrow> Settings \<Rightarrow> Candle \<Rightarrow> BacktestState_fp \<Rightarrow> BacktestState_fp" where
  "open_phase_fp rnd settings candle s =
     (case activeTrade_fp s of
        Some a \<Rightarrow> s
      | None \<Rightarrow>
          (case scan_signals_fp rnd settings candle (st_equity_fp s) [] (pendingSignals_fp s) of
             None \<Rightarrow> s
           | Some (t, pending') \<Rightarrow>
               s\<lparr>executedTrades_fp := executedTrades_fp s @ [t],
                 activeTrade_fp := Some (length (executedTrades_fp s)),
                 pendingSignals_fp := pending'\<rparr>))"

definition candle_step_fp ::
  "(real \<Rightarrow> double) \<Rightarrow> Settings \<Rightarrow> Candle \<Rightarrow> BacktestState_fp \<Rightarrow> BacktestState_fp" where
  "candle_step_fp rnd settings candle s =
     open_phase_fp rnd settings candle (close_phase_fp rnd settings candle s)"

text \<open>Lines 538 to 545.\<close>

definition initial_state_fp :: "TradeSignal list \<Rightarrow> Settings \<Rightarrow> real option \<Rightarrow> BacktestState_fp" where
  "initial_state_fp tradeSignals settings startingEquity =
     \<lparr>st_equity_fp = Finite (initialCapitalForRun settings startingEquity),
      st_peakEquity_fp = Finite (initialCapitalForRun settings startingEquity),
      st_maxDrawdown_fp = Finite 0,
      st_maxDrawdownAmount_fp = Finite 0,
      executedTrades_fp = [],
      activeTrade_fp = None,
      pendingSignals_fp =
        js_sort (\<lambda>a b. time_cmp (sig_entryTime a) (sig_entryTime b)) tradeSignals\<rparr>"

definition run_candles_fp ::
  "(real \<Rightarrow> double) \<Rightarrow> Settings \<Rightarrow> Candle list \<Rightarrow> BacktestState_fp \<Rightarrow> BacktestState_fp" where
  "run_candles_fp rnd settings ltfData s = fold (candle_step_fp rnd settings) ltfData s"

text \<open>
  Lines 650 to 674: the aggregation. \<^verbatim>\<open>reduce((sum, t) => sum + t.pnl, 0)\<close> adds from the
  left, with one rounding for each trade.
\<close>

definition aggregate_fp :: "(real \<Rightarrow> double) \<Rightarrow> real \<Rightarrow> BacktestState_fp \<Rightarrow> BacktestResults_fp" where
  "aggregate_fp rnd initialCapital' s =
     (let closedTrades = filter (\<lambda>t. outcome_fp t \<noteq> Open) (executedTrades_fp s);
          totalTrades' = length closedTrades
      in if totalTrades' = 0 then
           \<lparr>trades_fp = executedTrades_fp s, maxDrawdown_fp = Finite 0,
            maxDrawdownAmount_fp = Finite 0, netProfitPercent_fp = Finite 0,
            winRate_fp = Finite 0, profitFactor_fp = Finite 0,
            finalEquity_fp = st_equity_fp s, totalTrades_fp = 0\<rparr>
         else
           (let wins = length (filter (\<lambda>t. outcome_fp t = Win) closedTrades);
                winRate' =
                  (if totalTrades' > 0
                   then js_mul rnd (js_div rnd (Finite (real wins)) (Finite (real totalTrades')))
                          (Finite 100)
                   else Finite 0);
                finalEquity' = st_equity_fp s;
                netProfitPercent' =
                  js_mul rnd
                    (js_div rnd (js_sub rnd finalEquity' (Finite initialCapital'))
                       (Finite initialCapital'))
                    (Finite 100);
                totalWinPnl = foldl (\<lambda>sum t. js_add rnd sum (pnl_fp t)) (Finite 0)
                                (filter (\<lambda>t. outcome_fp t = Win) closedTrades);
                totalLossPnl = js_abs (foldl (\<lambda>sum t. js_add rnd sum (pnl_fp t)) (Finite 0)
                                 (filter (\<lambda>t. outcome_fp t = Loss) closedTrades))
            in \<lparr>trades_fp = executedTrades_fp s,
                maxDrawdown_fp = st_maxDrawdown_fp s,
                maxDrawdownAmount_fp = st_maxDrawdownAmount_fp s,
                netProfitPercent_fp = netProfitPercent',
                winRate_fp = winRate',
                profitFactor_fp =
                  (if js_less (Finite 0) totalLossPnl then js_div rnd totalWinPnl totalLossPnl
                   else PosInfinity),
                finalEquity_fp = finalEquity',
                totalTrades_fp = totalTrades'\<rparr>))"

definition runBacktest_fp ::
  "(real \<Rightarrow> double) \<Rightarrow> Candle list \<Rightarrow> TradeSignal list \<Rightarrow> Settings \<Rightarrow> real option \<Rightarrow>
   BacktestResults_fp" where
  "runBacktest_fp rnd ltfData tradeSignals settings startingEquity =
     aggregate_fp rnd (initialCapitalForRun settings startingEquity)
       (run_candles_fp rnd settings ltfData (initial_state_fp tradeSignals settings startingEquity))"

text \<open>
  The \<^verbatim>\<open>pnl\<close> of the closed trades of a result, in the order of the returned list
  (\<^verbatim>\<open>closedTrades\<close> of line 650).
\<close>

definition closed_pnl_fp :: "BacktestResults_fp \<Rightarrow> double list" where
  "closed_pnl_fp r = map pnl_fp (filter (\<lambda>t. outcome_fp t \<noteq> Open) (trades_fp r))"

text \<open>The invariants of the candle loop, for the trades of this embedding.\<close>

definition trades_ok_fp :: "BacktestState_fp \<Rightarrow> bool" where
  "trades_ok_fp s =
     (case activeTrade_fp s of
        None \<Rightarrow> (\<forall>t \<in> set (executedTrades_fp s). outcome_fp t \<noteq> Open)
      | Some a \<Rightarrow> Suc a = length (executedTrades_fp s) \<and>
                  outcome_fp (executedTrades_fp s ! a) = Open \<and>
                  (\<forall>t \<in> set (butlast (executedTrades_fp s)). outcome_fp t \<noteq> Open))"

text \<open>
  The running equity is the starting capital \<open>c\<close> with the \<^verbatim>\<open>pnl\<close> of the closed trades
  added to it one after the other, in the order of the list.
\<close>

definition equity_ok_fp :: "(real \<Rightarrow> double) \<Rightarrow> real \<Rightarrow> BacktestState_fp \<Rightarrow> bool" where
  "equity_ok_fp rnd c s =
     (st_equity_fp s =
        foldl (js_add rnd) (Finite c)
          (map pnl_fp (filter (\<lambda>t. outcome_fp t \<noteq> Open) (executedTrades_fp s))))"

text \<open>A second signal for concrete runs: long at 101, stop at 97, target at 109.\<close>

definition second_signal :: TradeSignal where
  "second_signal = \<lparr>sig_entryTime = 2, sig_entryPrice = 101, sig_stopLoss = 97,
     sig_takeProfit = 109, sig_type = Bullish\<rparr>"

text \<open>
  Four candles on which \<open>example_signal\<close> and \<open>second_signal\<close> are filled and reach their
  targets, one after the other.
\<close>

definition two_wins :: "Candle list" where
  "two_wins = [mk_candle 0 100 101 99 100, mk_candle 1 100 111 100 110,
               mk_candle 2 101 102 100 101, mk_candle 3 101 110 101 109]"

section \<open>Notions for the optimizer's claims\<close>



text \<open>
  Optimizer settings for concrete runs: the high-timeframe lookback swept from 1 to \<open>n\<close>
  in steps of 1, and the risk-reward ratio swept over 1 and 2, the other parameters
  disabled.
\<close>

definition disabled_parameter :: OptimizerParameter where
  "disabled_parameter = \<lparr>p_enabled = False, p_start = 0, p_end = 0, p_step = 1\<rparr>"









section \<open>The Swing Detector on a natural lookback\<close>

text \<open>
  When \<open>lookback\<close> is a natural number every index the loops read is an index of the
  array, nothing throws, and the result is the list of the flagged candles in order.
\<close>

lemma at_index_nat: "at_index xs (real n) = (if n < length xs then Some (xs ! n) else None)"
  by (simp add: at_index_def)

lemma elem_nat: "n < length xs \<Longrightarrow> elem xs (real n) = Inr (xs ! n)"
  by (simp add: elem_def at_index_nat)

lemma elem_nat_diff: "j \<le> n \<Longrightarrow> n < length xs \<Longrightarrow> elem xs (real n - real j) = Inr (xs ! (n - j))"
  using elem_nat [of "n - j" xs] by (simp add: of_nat_diff)

lemma elem_nat_add: "n + j < length xs \<Longrightarrow> elem xs (real n + real j) = Inr (xs ! (n + j))"
  using elem_nat [of "n + j" xs] by simp

lemma not_high_nat:
  "j \<le> i \<Longrightarrow> i + j < length data \<Longrightarrow>
   not_high data (real i) j =
     Inr (c_high (data ! i) < c_high (data ! (i - j)) \<or> c_high (data ! i) \<le> c_high (data ! (i + j)))"
  by (simp add: not_high_def or_else_def ebind_def elem_nat elem_nat_diff elem_nat_add)

lemma not_low_nat:
  "j \<le> i \<Longrightarrow> i + j < length data \<Longrightarrow>
   not_low data (real i) j =
     Inr (c_low (data ! i) > c_low (data ! (i - j)) \<or> c_low (data ! i) \<ge> c_low (data ! (i + j)))"
  by (simp add: not_low_def or_else_def ebind_def elem_nat elem_nat_diff elem_nat_add)

lemma inner_loop_nat:
  "lookback \<le> i \<Longrightarrow> i + lookback < length data \<Longrightarrow>
   inner_loop data (real lookback) (real i) j isHigh isLow =
     Inr (isHigh \<and> (\<forall>k \<in> {j..lookback}. c_high (data ! (i - k)) \<le> c_high (data ! i) \<and> c_high (data ! (i + k)) < c_high (data ! i)),
          isLow \<and> (\<forall>k \<in> {j..lookback}. c_low (data ! i) \<le> c_low (data ! (i - k)) \<and> c_low (data ! i) < c_low (data ! (i + k))))"
proof (induction "Suc lookback - j" arbitrary: j isHigh isLow)
  case 0
  then have "\<not> real j \<le> real lookback" by simp
  moreover from 0 have "{j..lookback} = {}" by simp
  ultimately show ?case by (subst inner_loop.simps) simp
next
  case (Suc n)
  then have j: "j \<le> lookback" by simp
  then have split: "{j..lookback} = insert j {Suc j..lookback}" by auto
  have n: "n = Suc lookback - (j + 1)" using Suc.hyps(2) by simp
  have nh: "not_high data (real i) j = Inr (c_high (data ! i) < c_high (data ! (i - j)) \<or> c_high (data ! i) \<le> c_high (data ! (i + j)))"
    using j Suc.prems by (intro not_high_nat) simp_all
  have nl: "not_low data (real i) j = Inr (c_low (data ! i) > c_low (data ! (i - j)) \<or> c_low (data ! i) \<ge> c_low (data ! (i + j)))"
    using j Suc.prems by (intro not_low_nat) simp_all
  have jr: "real j \<le> real lookback" using j by simp
  show ?case
    apply (subst inner_loop.simps)
    apply (simp only: jr if_True nh nl ebind_def sum.case Suc.hyps(1) [OF n Suc.prems])
    apply (auto simp: split not_le not_less)
    done
qed

lemma outer_loop_nat:
  "lookback \<le> i \<Longrightarrow>
   outer_loop data (real lookback) (real i) hs ls =
     Inr \<lparr>highs = hs @ map (\<lambda>k. high_point (data ! k)) (filter (swing_high_at data lookback) [i..<length data - lookback]),
          lows = ls @ map (\<lambda>k. low_point (data ! k)) (filter (swing_low_at data lookback) [i..<length data - lookback])\<rparr>"
proof (induction "length data - lookback - i" arbitrary: i hs ls)
  case 0
  then have "\<not> real i < real (length data) - real lookback" by linarith
  moreover from 0 have "[i..<length data - lookback] = []" by simp
  ultimately show ?case by (subst outer_loop.simps) simp
next
  case (Suc n)
  then have i: "i + lookback < length data" by simp
  then have lt: "real i < real (length data) - real lookback" by linarith
  have n: "n = length data - lookback - Suc i" using Suc.hyps(2) by simp
  have le: "lookback \<le> Suc i" using Suc.prems by simp
  have upt: "[i..<length data - lookback] = i # [Suc i..<length data - lookback]"
    using i by (simp add: upt_conv_Cons)
  have il: "i < length data" using i by simp
  have inner: "inner_loop data (real lookback) (real i) 1 True True =
      Inr (swing_high_at data lookback i, swing_low_at data lookback i)"
    by (simp add: inner_loop_nat [OF Suc.prems i] swing_high_at_def swing_low_at_def)
  have step: "outer_loop data (real lookback) (real i) hs ls =
      outer_loop data (real lookback) (real (Suc i))
        (if swing_high_at data lookback i then hs @ [high_point (data ! i)] else hs)
        (if swing_low_at data lookback i then ls @ [low_point (data ! i)] else ls)"
    apply (subst outer_loop.simps)
    apply (simp only: lt if_True inner)
    apply (simp add: ebind_def elem_nat [OF il] high_point_def low_point_def add.commute)
    done
  show ?case
    unfolding step Suc.hyps(1) [OF n le] upt by simp
qed

lemma findSwingPoints_nat:
  "findSwingPoints data (real lookback) =
     Inr \<lparr>highs = map (\<lambda>k. high_point (data ! k)) (filter (swing_high_at data lookback) [lookback..<length data - lookback]),
          lows = map (\<lambda>k. low_point (data ! k)) (filter (swing_low_at data lookback) [lookback..<length data - lookback])\<rparr>"
proof (cases "real (length data) < real lookback * 2 + 1")
  case True
  then have "length data < lookback * 2 + 1" by linarith
  then have "[lookback..<length data - lookback] = []" by simp
  with True show ?thesis by (simp add: findSwingPoints_def)
next
  case False
  then show ?thesis
    using outer_loop_nat [of lookback lookback data "[]" "[]"] by (simp add: findSwingPoints_def)
qed

text \<open>
  Claim C1, as the code has it. For every candle series and every natural lookback the
  Swing Detector returns, and every point in its list of highs is the candle at an index
  \<open>i\<close> with \<open>lookback\<close> candles on both sides whose high is greater than or equal to the
  high of each of the \<open>lookback\<close> candles on its left and strictly greater than the high
  of each of the \<open>lookback\<close> candles on its right; every point in its list of lows is a
  candle whose low is less than or equal to the lows on its left and strictly less than
  the lows on its right. A tie with a neighbour on the right disqualifies, a tie with a
  neighbour on the left does not.
\<close>

theorem swing_points_are_local_extrema:
  "\<exists>sw. findSwingPoints data (real lookback) = Inr sw \<and>
     (\<forall>p \<in> set (highs sw). \<exists>i. lookback \<le> i \<and> i + lookback < length data \<and>
        p = \<lparr>sp_time = c_time (data ! i), sp_price = c_high (data ! i), sp_type = SwingHigh\<rparr> \<and>
        (\<forall>j \<in> {1..lookback}. c_high (data ! (i - j)) \<le> c_high (data ! i) \<and>
                             c_high (data ! (i + j)) < c_high (data ! i))) \<and>
     (\<forall>p \<in> set (lows sw). \<exists>i. lookback \<le> i \<and> i + lookback < length data \<and>
        p = \<lparr>sp_time = c_time (data ! i), sp_price = c_low (data ! i), sp_type = SwingLow\<rparr> \<and>
        (\<forall>j \<in> {1..lookback}. c_low (data ! i) \<le> c_low (data ! (i - j)) \<and>
                             c_low (data ! i) < c_low (data ! (i + j))))"
proof -
  let ?hs = "filter (swing_high_at data lookback) [lookback..<length data - lookback]"
  let ?ls = "filter (swing_low_at data lookback) [lookback..<length data - lookback]"
  have high: "\<exists>i. lookback \<le> i \<and> i + lookback < length data \<and>
        p = \<lparr>sp_time = c_time (data ! i), sp_price = c_high (data ! i), sp_type = SwingHigh\<rparr> \<and>
        (\<forall>j \<in> {1..lookback}. c_high (data ! (i - j)) \<le> c_high (data ! i) \<and>
                             c_high (data ! (i + j)) < c_high (data ! i))"
    if "p \<in> set (map (\<lambda>k. high_point (data ! k)) ?hs)" for p
  proof -
    from that obtain k where k: "k \<in> set ?hs" and p: "p = high_point (data ! k)" by auto
    from k have "lookback \<le> k" "k + lookback < length data" "swing_high_at data lookback k"
      by auto
    with p show ?thesis
      unfolding swing_high_at_def high_point_def by blast
  qed
  have low: "\<exists>i. lookback \<le> i \<and> i + lookback < length data \<and>
        p = \<lparr>sp_time = c_time (data ! i), sp_price = c_low (data ! i), sp_type = SwingLow\<rparr> \<and>
        (\<forall>j \<in> {1..lookback}. c_low (data ! i) \<le> c_low (data ! (i - j)) \<and>
                             c_low (data ! i) < c_low (data ! (i + j)))"
    if "p \<in> set (map (\<lambda>k. low_point (data ! k)) ?ls)" for p
  proof -
    from that obtain k where k: "k \<in> set ?ls" and p: "p = low_point (data ! k)" by auto
    from k have "lookback \<le> k" "k + lookback < length data" "swing_low_at data lookback k"
      by auto
    with p show ?thesis
      unfolding swing_low_at_def low_point_def by blast
  qed
  show ?thesis
    unfolding findSwingPoints_nat using high low by simp
qed

text \<open>
  The theorem at the series with highs 1, 3, 2 and lows 1, 0, 2 and lookback 1: the
  candle in the middle is flagged as a high and as a low.
\<close>

theorem swing_points_are_local_extrema_witness:
  "findSwingPoints [mk_candle 0 1 1 1 1, mk_candle 1 1 3 0 1, mk_candle 2 1 2 2 1] (real 1) =
     Inr \<lparr>highs = [\<lparr>sp_time = 1, sp_price = 3, sp_type = SwingHigh\<rparr>],
          lows = [\<lparr>sp_time = 1, sp_price = 0, sp_type = SwingLow\<rparr>]\<rparr> \<and>
   (\<exists>i. 1 \<le> i \<and> i + 1 < length [mk_candle 0 1 1 1 1, mk_candle 1 1 3 0 1, mk_candle 2 1 2 2 1] \<and>
      \<lparr>sp_time = 1, sp_price = 3, sp_type = SwingHigh\<rparr> =
        \<lparr>sp_time = c_time ([mk_candle 0 1 1 1 1, mk_candle 1 1 3 0 1, mk_candle 2 1 2 2 1] ! i),
         sp_price = c_high ([mk_candle 0 1 1 1 1, mk_candle 1 1 3 0 1, mk_candle 2 1 2 2 1] ! i),
         sp_type = SwingHigh\<rparr> \<and>
      (\<forall>j \<in> {1..1}.
         c_high ([mk_candle 0 1 1 1 1, mk_candle 1 1 3 0 1, mk_candle 2 1 2 2 1] ! (i - j))
           \<le> c_high ([mk_candle 0 1 1 1 1, mk_candle 1 1 3 0 1, mk_candle 2 1 2 2 1] ! i) \<and>
         c_high ([mk_candle 0 1 1 1 1, mk_candle 1 1 3 0 1, mk_candle 2 1 2 2 1] ! (i + j))
           < c_high ([mk_candle 0 1 1 1 1, mk_candle 1 1 3 0 1, mk_candle 2 1 2 2 1] ! i)))"
proof -
  let ?d = "[mk_candle 0 1 1 1 1, mk_candle 1 1 3 0 1, mk_candle 2 1 2 2 1]"
  have ev: "findSwingPoints ?d (real 1) =
     Inr \<lparr>highs = [\<lparr>sp_time = 1, sp_price = 3, sp_type = SwingHigh\<rparr>],
          lows = [\<lparr>sp_time = 1, sp_price = 0, sp_type = SwingLow\<rparr>]\<rparr>"
    unfolding findSwingPoints_nat
    by (simp add: swing_high_at_def swing_low_at_def high_point_def low_point_def mk_candle_def)
  from swing_points_are_local_extrema [of ?d 1] obtain sw where
    sw: "findSwingPoints ?d (real 1) = Inr sw" and
    hs: "\<forall>p \<in> set (highs sw). \<exists>i. 1 \<le> i \<and> i + 1 < length ?d \<and>
        p = \<lparr>sp_time = c_time (?d ! i), sp_price = c_high (?d ! i), sp_type = SwingHigh\<rparr> \<and>
        (\<forall>j \<in> {1..1}. c_high (?d ! (i - j)) \<le> c_high (?d ! i) \<and>
                       c_high (?d ! (i + j)) < c_high (?d ! i))"
    by blast
  from sw ev have "highs sw = [\<lparr>sp_time = 1, sp_price = 3, sp_type = SwingHigh\<rparr>]" by simp
  with hs have "\<exists>i. 1 \<le> i \<and> i + 1 < length ?d \<and>
        \<lparr>sp_time = 1, sp_price = 3, sp_type = SwingHigh\<rparr> =
          \<lparr>sp_time = c_time (?d ! i), sp_price = c_high (?d ! i), sp_type = SwingHigh\<rparr> \<and>
        (\<forall>j \<in> {1..1}. c_high (?d ! (i - j)) \<le> c_high (?d ! i) \<and>
                       c_high (?d ! (i + j)) < c_high (?d ! i))"
    by simp
  with ev show ?thesis by blast
qed

text \<open>
  Claim C1 as the specification states it fails. On the series with highs 5, 5, 3 and
  lows 1, 1, 2 and lookback 1 the candle in the middle is flagged as a swing high and as
  a swing low, while its high equals the high of its left neighbour and its low equals
  the low of its left neighbour.
\<close>

theorem swing_strict_left_counterexample:
  "findSwingPoints [mk_candle 0 2 5 1 2, mk_candle 1 2 5 1 2, mk_candle 2 2 3 2 2] (real 1) =
     Inr \<lparr>highs = [\<lparr>sp_time = 1, sp_price = 5, sp_type = SwingHigh\<rparr>],
          lows = [\<lparr>sp_time = 1, sp_price = 1, sp_type = SwingLow\<rparr>]\<rparr> \<and>
   \<not> c_high (mk_candle 0 2 5 1 2) < c_high (mk_candle 1 2 5 1 2) \<and>
   \<not> c_low (mk_candle 1 2 5 1 2) < c_low (mk_candle 0 2 5 1 2)"
  unfolding findSwingPoints_nat
  by (simp add: swing_high_at_def swing_low_at_def high_point_def low_point_def mk_candle_def)

section \<open>Insufficient data\<close>

text \<open>
  Claim C7. For every lookback, the Swing Detector on a series shorter than
  \<open>2 * lookback + 1\<close> candles returns two empty lists, and the analysis on a chart whose
  high-timeframe series is shorter than \<open>2 * htfSwingLookback + 1\<close> candles, or whose
  mid-timeframe or low-timeframe series is shorter than 10 candles, returns an empty
  list of signals and an empty list of drawings; neither throws.
\<close>

theorem insufficient_data_empty:
  "(real (length data) < lookback * 2 + 1 \<longrightarrow>
      findSwingPoints data lookback = Inr \<lparr>highs = [], lows = []\<rparr>) \<and>
   (real (length (htf chartData)) < htfSwingLookback settings * 2 + 1 \<or>
    length (mtf chartData) < 10 \<or> length (ltf chartData) < 10 \<longrightarrow>
      analyzeSMC chartData settings = Inr \<lparr>an_trades = [], an_drawings = []\<rparr>)"
  by (simp add: findSwingPoints_def analyzeSMC_def)

text \<open>
  The theorem at a series of two candles with lookback 1 and at a chart with a
  high-timeframe series of two candles and empty mid- and low-timeframe series.
\<close>

theorem insufficient_data_empty_witness:
  "real (length [mk_candle 0 1 2 1 2, mk_candle 1 2 3 1 2]) < 1 * 2 + 1 \<and>
   findSwingPoints [mk_candle 0 1 2 1 2, mk_candle 1 2 3 1 2] 1 = Inr \<lparr>highs = [], lows = []\<rparr> \<and>
   real (length (htf \<lparr>htf = [mk_candle 0 1 2 1 2, mk_candle 1 2 3 1 2], mtf = [], ltf = []\<rparr>))
     < htfSwingLookback example_settings * 2 + 1 \<and>
   analyzeSMC \<lparr>htf = [mk_candle 0 1 2 1 2, mk_candle 1 2 3 1 2], mtf = [], ltf = []\<rparr> example_settings =
     Inr \<lparr>an_trades = [], an_drawings = []\<rparr>"
  using insufficient_data_empty [of "[mk_candle 0 1 2 1 2, mk_candle 1 2 3 1 2]" 1
      "\<lparr>htf = [mk_candle 0 1 2 1 2, mk_candle 1 2 3 1 2], mtf = [], ltf = []\<rparr>" example_settings]
  by (simp add: example_settings_def)

section \<open>Backtest Simulator: invariants\<close>

lemma open_trade_outcome: "open_trade settings candle e signal = Some t \<Longrightarrow> outcome t = Open"
  by (auto simp: open_trade_def Let_def split: if_splits)

lemma scan_signals_outcome:
  "scan_signals settings candle e skipped pending = Some (t, pending') \<Longrightarrow> outcome t = Open"
  by (induction pending arbitrary: skipped) (auto split: if_splits option.splits dest: open_trade_outcome)

lemma exit_check_outcome: "exit_check candle t = (Some oc, ep) \<Longrightarrow> oc \<noteq> Open"
  by (auto simp: exit_check_def split: if_splits)

lemma trades_ok_active:
  "trades_ok s \<Longrightarrow> activeTrade s = Some a \<Longrightarrow>
   \<exists>pre t. executedTrades s = pre @ [t] \<and> a = length pre \<and> outcome t = Open \<and>
           (\<forall>u \<in> set pre. outcome u \<noteq> Open)"
proof -
  assume ok: "trades_ok s" and a: "activeTrade s = Some a"
  then have len: "Suc a = length (executedTrades s)"
    and op: "outcome (executedTrades s ! a) = Open"
    and rest: "\<forall>t \<in> set (butlast (executedTrades s)). outcome t \<noteq> Open"
    by (simp_all add: trades_ok_def)
  from len have ne: "executedTrades s \<noteq> []" by auto
  then have eq: "executedTrades s = butlast (executedTrades s) @ [last (executedTrades s)]" by simp
  have la: "a = length (butlast (executedTrades s))" using len by simp
  have "a = length (executedTrades s) - 1" using len by simp
  then have "executedTrades s ! a = last (executedTrades s)"
    using ne by (simp add: last_conv_nth)
  with op eq la rest show ?thesis by metis
qed

lemma close_trade_fields:
  "executedTrades (close_trade settings candle a oc ep s) =
     (executedTrades s)[a := (executedTrades s ! a)\<lparr>outcome := oc, exitTime := Some (c_time candle),
        exitPrice := Some ep,
        pnl := net_pnl settings oc (executedTrades s ! a),
        equity := st_equity s + net_pnl settings oc (executedTrades s ! a),
        returnOnEquityPercent :=
          (net_pnl settings oc (executedTrades s ! a) / equity (executedTrades s ! a)) * 100\<rparr>]"
  "activeTrade (close_trade settings candle a oc ep s) = None"
  "pendingSignals (close_trade settings candle a oc ep s) = pendingSignals s"
  "st_equity (close_trade settings candle a oc ep s) = st_equity s + net_pnl settings oc (executedTrades s ! a)"
  unfolding close_trade_def Let_def by simp_all

lemma close_phase_cases:
  "close_phase settings candle s = s \<or>
   (\<exists>a oc ep. activeTrade s = Some a \<and> exit_check candle (executedTrades s ! a) = (Some oc, Some ep) \<and>
      ep \<noteq> 0 \<and> close_phase settings candle s = close_trade settings candle a oc ep s)"
  by (auto simp: close_phase_def split: option.splits prod.splits)

lemma trades_ok_close_trade:
  assumes "trades_ok s" "activeTrade s = Some a" "oc \<noteq> Open"
  shows "trades_ok (close_trade settings candle a oc ep s)"
proof -
  from trades_ok_active [OF assms(1,2)] obtain pre t where
    ex: "executedTrades s = pre @ [t]" and a: "a = length pre" and pre: "\<forall>u \<in> set pre. outcome u \<noteq> Open"
    by blast
  show ?thesis
    unfolding trades_ok_def close_trade_fields ex a using pre assms(3) by simp
qed

lemma equity_ok_close_trade:
  assumes "trades_ok s" "equity_ok c s" "activeTrade s = Some a" "oc \<noteq> Open"
  shows "equity_ok c (close_trade settings candle a oc ep s)"
proof -
  from trades_ok_active [OF assms(1,3)] obtain pre t where
    ex: "executedTrades s = pre @ [t]" and a: "a = length pre" and t: "outcome t = Open"
    and pre: "\<forall>u \<in> set pre. outcome u \<noteq> Open"
    by blast
  from assms(2) have "st_equity s = c + sum_list (map pnl (closed_trades pre))"
    unfolding equity_ok_def ex closed_trades_def using t by simp
  then show ?thesis
    unfolding equity_ok_def close_trade_fields ex a closed_trades_def using assms(4) by simp
qed

lemma trades_ok_close_phase: "trades_ok s \<Longrightarrow> trades_ok (close_phase settings candle s)"
  using close_phase_cases [of settings candle s]
  by (metis trades_ok_close_trade exit_check_outcome)

lemma equity_ok_close_phase:
  "trades_ok s \<Longrightarrow> equity_ok c s \<Longrightarrow> equity_ok c (close_phase settings candle s)"
  using close_phase_cases [of settings candle s]
  by (metis equity_ok_close_trade exit_check_outcome)

lemma open_phase_cases:
  "open_phase settings candle s = s \<or>
   (\<exists>t pending'. activeTrade s = None \<and> outcome t = Open \<and>
      scan_signals settings candle (st_equity s) [] (pendingSignals s) = Some (t, pending') \<and>
      open_phase settings candle s =
        s\<lparr>executedTrades := executedTrades s @ [t],
          activeTrade := Some (length (executedTrades s)),
          pendingSignals := pending'\<rparr>)"
  by (auto simp: open_phase_def split: option.splits dest: scan_signals_outcome)

lemma trades_ok_open_phase:
  assumes "trades_ok s"
  shows "trades_ok (open_phase settings candle s)"
  using open_phase_cases [of settings candle s]
proof (elim disjE exE conjE)
  assume "open_phase settings candle s = s"
  with assms show ?thesis by simp
next
  fix t pending'
  assume "activeTrade s = None" "outcome t = Open"
    and eq: "open_phase settings candle s =
        s\<lparr>executedTrades := executedTrades s @ [t],
          activeTrade := Some (length (executedTrades s)),
          pendingSignals := pending'\<rparr>"
  with assms show ?thesis unfolding eq by (simp add: trades_ok_def)
qed

lemma equity_ok_open_phase:
  assumes "equity_ok c s"
  shows "equity_ok c (open_phase settings candle s)"
  using open_phase_cases [of settings candle s]
proof (elim disjE exE conjE)
  assume "open_phase settings candle s = s"
  with assms show ?thesis by simp
next
  fix t pending'
  assume "outcome t = Open"
    and eq: "open_phase settings candle s =
        s\<lparr>executedTrades := executedTrades s @ [t],
          activeTrade := Some (length (executedTrades s)),
          pendingSignals := pending'\<rparr>"
  with assms show ?thesis unfolding eq by (simp add: equity_ok_def closed_trades_def)
qed

lemma trades_ok_step: "trades_ok s \<Longrightarrow> trades_ok (candle_step settings candle s)"
  by (simp add: candle_step_def trades_ok_open_phase trades_ok_close_phase)

lemma equity_ok_step:
  "trades_ok s \<Longrightarrow> equity_ok c s \<Longrightarrow> equity_ok c (candle_step settings candle s)"
  by (simp add: candle_step_def equity_ok_open_phase equity_ok_close_phase trades_ok_close_phase)

lemma invariants_run:
  "trades_ok s \<Longrightarrow> equity_ok c s \<Longrightarrow>
   trades_ok (run_candles settings ltfData s) \<and> equity_ok c (run_candles settings ltfData s)"
  unfolding run_candles_def
  by (induction ltfData arbitrary: s) (simp_all add: trades_ok_step equity_ok_step)

lemma invariants_initial:
  "trades_ok (initial_state tradeSignals settings startingEquity)"
  "equity_ok (initialCapitalForRun settings startingEquity) (initial_state tradeSignals settings startingEquity)"
  by (simp_all add: trades_ok_def equity_ok_def initial_state_def closed_trades_def)

lemma trades_ok_count:
  "trades_ok s \<Longrightarrow> length (filter (\<lambda>t. outcome t = Open) (executedTrades s)) \<le> 1"
proof (cases "activeTrade s")
  case None
  assume "trades_ok s"
  with None have "filter (\<lambda>t. outcome t = Open) (executedTrades s) = []"
    by (simp add: trades_ok_def filter_empty_conv)
  then show ?thesis by simp
next
  case (Some a)
  assume "trades_ok s"
  from trades_ok_active [OF this Some] obtain pre t where
    ex: "executedTrades s = pre @ [t]" and pre: "\<forall>u \<in> set pre. outcome u \<noteq> Open"
    by blast
  from pre have "filter (\<lambda>t. outcome t = Open) pre = []" by (simp add: filter_empty_conv)
  then show ?thesis unfolding ex by simp
qed

lemma aggregate_fields:
  "trades (aggregate c s) = executedTrades s"
  "finalEquity (aggregate c s) = st_equity s"
  by (simp_all add: aggregate_def Let_def)

lemma close_phase_length: "length (executedTrades (close_phase settings candle s)) = length (executedTrades s)"
  using close_phase_cases [of settings candle s] by (auto simp: close_trade_fields)

lemma open_trade_entryTime: "open_trade settings candle e signal = Some t \<Longrightarrow> entryTime t = Some (c_time candle)"
  by (auto simp: open_trade_def Let_def split: if_splits)

lemma scan_signals_entryTime:
  "scan_signals settings candle e skipped pending = Some (t, pending') \<Longrightarrow> entryTime t = Some (c_time candle)"
  by (induction pending arbitrary: skipped) (auto split: if_splits option.splits dest: open_trade_entryTime)

lemma times_ok_mono: "times_ok now s \<Longrightarrow> now \<le> now' \<Longrightarrow> times_ok now' s"
  unfolding times_ok_def by (meson order_trans)

lemma times_ok_close_phase:
  assumes "trades_ok s" "times_ok now s" "now < c_time candle"
  shows "times_ok now (close_phase settings candle s)"
  using close_phase_cases [of settings candle s]
proof (elim disjE exE conjE)
  assume "close_phase settings candle s = s"
  with assms show ?thesis by simp
next
  fix a oc ep
  assume a: "activeTrade s = Some a"
    and eq: "close_phase settings candle s = close_trade settings candle a oc ep s"
  from trades_ok_active [OF assms(1) a] obtain pre t where
    ex: "executedTrades s = pre @ [t]" and al: "a = length pre"
    by blast
  from assms(2) have pre: "\<forall>t \<in> set pre. \<exists>te. entryTime t = Some te \<and> te \<le> now \<and>
        (outcome t \<noteq> Open \<longrightarrow> (\<exists>tx. exitTime t = Some tx \<and> te < tx))"
    and "\<exists>te. entryTime t = Some te \<and> te \<le> now"
    unfolding times_ok_def ex by auto
  then obtain te where te: "entryTime t = Some te" "te \<le> now" by blast
  with assms(3) have "te < c_time candle" by simp
  with te pre show ?thesis
    unfolding eq times_ok_def close_trade_fields ex al by simp
qed

lemma times_ok_open_phase:
  assumes "times_ok now s" "now < c_time candle"
  shows "times_ok (c_time candle) (open_phase settings candle s)"
  using open_phase_cases [of settings candle s]
proof (elim disjE exE conjE)
  assume "open_phase settings candle s = s"
  with assms times_ok_mono [of now s "c_time candle"] show ?thesis by simp
next
  fix t pending'
  assume t: "outcome t = Open"
    and sc: "scan_signals settings candle (st_equity s) [] (pendingSignals s) = Some (t, pending')"
    and eq: "open_phase settings candle s =
        s\<lparr>executedTrades := executedTrades s @ [t],
          activeTrade := Some (length (executedTrades s)),
          pendingSignals := pending'\<rparr>"
  from assms times_ok_mono [of now s "c_time candle"] have "times_ok (c_time candle) s" by simp
  with t scan_signals_entryTime [OF sc] show ?thesis
    unfolding eq times_ok_def by simp
qed

lemma times_ok_step:
  "trades_ok s \<Longrightarrow> times_ok now s \<Longrightarrow> now < c_time candle \<Longrightarrow>
   times_ok (c_time candle) (candle_step settings candle s)"
  unfolding candle_step_def
  by (rule times_ok_open_phase [OF times_ok_close_phase])

lemma times_ok_run:
  "trades_ok s \<Longrightarrow> times_ok now s \<Longrightarrow> sorted_wrt (<) (map c_time ltfData) \<Longrightarrow>
   \<forall>c \<in> set ltfData. now < c_time c \<Longrightarrow>
   \<exists>now'. times_ok now' (run_candles settings ltfData s)"
  unfolding run_candles_def
proof (induction ltfData arbitrary: s now)
  case Nil
  then show ?case by auto
next
  case (Cons c cs)
  have "trades_ok (candle_step settings c s)" using Cons.prems(1) by (rule trades_ok_step)
  moreover have "now < c_time c" using Cons.prems(4) by simp
  then have "times_ok (c_time c) (candle_step settings c s)"
    using Cons.prems(1,2) by (intro times_ok_step)
  moreover have "sorted_wrt (<) (map c_time cs)" "\<forall>c' \<in> set cs. c_time c < c_time c'"
    using Cons.prems(3) by simp_all
  ultimately show ?case using Cons.IH by simp
qed

text \<open>Evaluation of concrete runs.\<close>

lemma ceiling_unit: "0 < x \<Longrightarrow> x \<le> 1 \<Longrightarrow> \<lceil>x::real\<rceil> = 1"
  by (simp add: ceiling_eq_iff)

lemmas backtest_eval = ceiling_unit
  runBacktest_def run_candles_def initial_state_def js_sort_def candle_step_def close_phase_def
  close_trade_def net_pnl_def exit_check_def hitSL_def hitTP_def open_phase_def open_trade_def
  isEntry_def aggregate_def initialCapitalForRun_def time_cmp_def num_cmp_def Let_def
  mk_candle_def example_signal_def example_settings_def

section \<open>Backtest Simulator in double arithmetic: invariants\<close>

lemma open_trade_fp_outcome:
  "open_trade_fp rnd settings candle e signal = Some t \<Longrightarrow> outcome_fp t = Open"
  by (auto simp: open_trade_fp_def Let_def split: if_splits)

lemma scan_signals_fp_outcome:
  "scan_signals_fp rnd settings candle e skipped pending = Some (t, pending') \<Longrightarrow> outcome_fp t = Open"
  by (induction pending arbitrary: skipped)
     (auto split: if_splits option.splits dest: open_trade_fp_outcome)

lemma exit_check_fp_outcome: "exit_check_fp candle t = (Some oc, ep) \<Longrightarrow> oc \<noteq> Open"
  by (auto simp: exit_check_fp_def split: if_splits)

lemma trades_ok_fp_active:
  "trades_ok_fp s \<Longrightarrow> activeTrade_fp s = Some a \<Longrightarrow>
   \<exists>pre t. executedTrades_fp s = pre @ [t] \<and> a = length pre \<and> outcome_fp t = Open \<and>
           (\<forall>u \<in> set pre. outcome_fp u \<noteq> Open)"
proof -
  assume ok: "trades_ok_fp s" and a: "activeTrade_fp s = Some a"
  then have len: "Suc a = length (executedTrades_fp s)"
    and op: "outcome_fp (executedTrades_fp s ! a) = Open"
    and rest: "\<forall>t \<in> set (butlast (executedTrades_fp s)). outcome_fp t \<noteq> Open"
    by (simp_all add: trades_ok_fp_def)
  from len have ne: "executedTrades_fp s \<noteq> []" by auto
  then have eq: "executedTrades_fp s = butlast (executedTrades_fp s) @ [last (executedTrades_fp s)]"
    by simp
  have la: "a = length (butlast (executedTrades_fp s))" using len by simp
  have "a = length (executedTrades_fp s) - 1" using len by simp
  then have "executedTrades_fp s ! a = last (executedTrades_fp s)"
    using ne by (simp add: last_conv_nth)
  with op eq la rest show ?thesis by metis
qed

lemma close_trade_fp_fields:
  "executedTrades_fp (close_trade_fp rnd settings candle a oc ep s) =
     (executedTrades_fp s)[a := (executedTrades_fp s ! a)\<lparr>outcome_fp := oc,
        exitTime_fp := Some (c_time candle), exitPrice_fp := Some ep,
        pnl_fp := net_pnl_fp rnd settings oc (executedTrades_fp s ! a),
        equity_fp := js_add rnd (st_equity_fp s) (net_pnl_fp rnd settings oc (executedTrades_fp s ! a)),
        returnOnEquityPercent_fp :=
          js_mul rnd (js_div rnd (net_pnl_fp rnd settings oc (executedTrades_fp s ! a))
                        (equity_fp (executedTrades_fp s ! a))) (Finite 100)\<rparr>]"
  "activeTrade_fp (close_trade_fp rnd settings candle a oc ep s) = None"
  "st_equity_fp (close_trade_fp rnd settings candle a oc ep s) =
     js_add rnd (st_equity_fp s) (net_pnl_fp rnd settings oc (executedTrades_fp s ! a))"
  unfolding close_trade_fp_def Let_def by simp_all

lemma close_phase_fp_cases:
  "close_phase_fp rnd settings candle s = s \<or>
   (\<exists>a oc ep. activeTrade_fp s = Some a \<and>
      exit_check_fp candle (executedTrades_fp s ! a) = (Some oc, Some ep) \<and>
      close_phase_fp rnd settings candle s = close_trade_fp rnd settings candle a oc ep s)"
  by (auto simp: close_phase_fp_def split: option.splits prod.splits)

lemma trades_ok_fp_close_trade:
  assumes "trades_ok_fp s" "activeTrade_fp s = Some a" "oc \<noteq> Open"
  shows "trades_ok_fp (close_trade_fp rnd settings candle a oc ep s)"
proof -
  from trades_ok_fp_active [OF assms(1,2)] obtain pre t where
    ex: "executedTrades_fp s = pre @ [t]" and a: "a = length pre"
    and pre: "\<forall>u \<in> set pre. outcome_fp u \<noteq> Open"
    by blast
  show ?thesis
    unfolding trades_ok_fp_def close_trade_fp_fields ex a using pre assms(3) by simp
qed

lemma equity_ok_fp_close_trade:
  assumes "trades_ok_fp s" "equity_ok_fp rnd c s" "activeTrade_fp s = Some a" "oc \<noteq> Open"
  shows "equity_ok_fp rnd c (close_trade_fp rnd settings candle a oc ep s)"
proof -
  from trades_ok_fp_active [OF assms(1,3)] obtain pre t where
    ex: "executedTrades_fp s = pre @ [t]" and a: "a = length pre" and t: "outcome_fp t = Open"
    by blast
  from assms(2) have "st_equity_fp s =
      foldl (js_add rnd) (Finite c) (map pnl_fp (filter (\<lambda>t. outcome_fp t \<noteq> Open) pre))"
    unfolding equity_ok_fp_def ex using t by simp
  then show ?thesis
    unfolding equity_ok_fp_def close_trade_fp_fields ex a using assms(4) by simp
qed

lemma trades_ok_fp_close_phase: "trades_ok_fp s \<Longrightarrow> trades_ok_fp (close_phase_fp rnd settings candle s)"
  using close_phase_fp_cases [of rnd settings candle s]
  by (metis trades_ok_fp_close_trade exit_check_fp_outcome)

lemma equity_ok_fp_close_phase:
  "trades_ok_fp s \<Longrightarrow> equity_ok_fp rnd c s \<Longrightarrow> equity_ok_fp rnd c (close_phase_fp rnd settings candle s)"
  using close_phase_fp_cases [of rnd settings candle s]
  by (metis equity_ok_fp_close_trade exit_check_fp_outcome)

lemma open_phase_fp_cases:
  "open_phase_fp rnd settings candle s = s \<or>
   (\<exists>t pending'. activeTrade_fp s = None \<and> outcome_fp t = Open \<and>
      open_phase_fp rnd settings candle s =
        s\<lparr>executedTrades_fp := executedTrades_fp s @ [t],
          activeTrade_fp := Some (length (executedTrades_fp s)),
          pendingSignals_fp := pending'\<rparr>)"
  by (auto simp: open_phase_fp_def split: option.splits dest: scan_signals_fp_outcome)

lemma trades_ok_fp_open_phase:
  assumes "trades_ok_fp s"
  shows "trades_ok_fp (open_phase_fp rnd settings candle s)"
  using open_phase_fp_cases [of rnd settings candle s]
proof (elim disjE exE conjE)
  assume "open_phase_fp rnd settings candle s = s"
  with assms show ?thesis by simp
next
  fix t pending'
  assume "activeTrade_fp s = None" "outcome_fp t = Open"
    and eq: "open_phase_fp rnd settings candle s =
        s\<lparr>executedTrades_fp := executedTrades_fp s @ [t],
          activeTrade_fp := Some (length (executedTrades_fp s)),
          pendingSignals_fp := pending'\<rparr>"
  with assms show ?thesis unfolding eq by (simp add: trades_ok_fp_def)
qed

lemma equity_ok_fp_open_phase:
  assumes "equity_ok_fp rnd c s"
  shows "equity_ok_fp rnd c (open_phase_fp rnd settings candle s)"
  using open_phase_fp_cases [of rnd settings candle s]
proof (elim disjE exE conjE)
  assume "open_phase_fp rnd settings candle s = s"
  with assms show ?thesis by simp
next
  fix t pending'
  assume "outcome_fp t = Open"
    and eq: "open_phase_fp rnd settings candle s =
        s\<lparr>executedTrades_fp := executedTrades_fp s @ [t],
          activeTrade_fp := Some (length (executedTrades_fp s)),
          pendingSignals_fp := pending'\<rparr>"
  with assms show ?thesis unfolding eq by (simp add: equity_ok_fp_def)
qed

lemma invariants_fp_step:
  "trades_ok_fp s \<Longrightarrow> equity_ok_fp rnd c s \<Longrightarrow>
   trades_ok_fp (candle_step_fp rnd settings candle s) \<and>
   equity_ok_fp rnd c (candle_step_fp rnd settings candle s)"
  by (simp add: candle_step_fp_def trades_ok_fp_open_phase trades_ok_fp_close_phase
      equity_ok_fp_open_phase equity_ok_fp_close_phase)

lemma invariants_fp_run:
  "trades_ok_fp s \<Longrightarrow> equity_ok_fp rnd c s \<Longrightarrow>
   trades_ok_fp (run_candles_fp rnd settings ltfData s) \<and>
   equity_ok_fp rnd c (run_candles_fp rnd settings ltfData s)"
  unfolding run_candles_fp_def
  by (induction ltfData arbitrary: s) (simp_all add: invariants_fp_step)

lemma invariants_fp_initial:
  "trades_ok_fp (initial_state_fp tradeSignals settings startingEquity)"
  "equity_ok_fp rnd (initialCapitalForRun settings startingEquity)
     (initial_state_fp tradeSignals settings startingEquity)"
  by (simp_all add: trades_ok_fp_def equity_ok_fp_def initial_state_fp_def)

lemma aggregate_fp_fields:
  "trades_fp (aggregate_fp rnd c s) = executedTrades_fp s"
  "finalEquity_fp (aggregate_fp rnd c s) = st_equity_fp s"
  by (simp_all add: aggregate_fp_def Let_def)

text \<open>
  Evaluation of concrete runs in double arithmetic. The rounding is unfolded at numerals
  only.
\<close>

lemmas round_double_numeral =
  round_double_def [of 0] round_double_def [of 1] round_double_def [of "numeral a"]
  round_double_def [of "- numeral a"] round_double_def [of "- 1"]
  round_double_def [of "numeral a / numeral b"] round_double_def [of "1 / numeral b"]
  round_double_def [of "- (numeral a / numeral b)"] round_double_def [of "- (1 / numeral b)"]
  for a b

lemmas double_eval =
  round_double_numeral overflow_check_def round_to_multiple_def exponent_of_def pow2_def
  round_even_def compute_floorlog signed_infinity_def js_sub_def js_le_def

lemmas backtest_fp_eval =
  runBacktest_fp_def run_candles_fp_def initial_state_fp_def js_sort_def candle_step_fp_def
  close_phase_fp_def close_trade_fp_def net_pnl_fp_def exit_check_fp_def hitSL_fp_def hitTP_fp_def
  open_phase_fp_def open_trade_fp_def isEntry_def aggregate_fp_def initialCapitalForRun_def
  time_cmp_def num_cmp_def Let_def mk_candle_def example_signal_def example_settings_def
  second_signal_def two_wins_def closed_pnl_fp_def

text \<open>
  The arithmetic at well-known values: 0.1 is the double below, 0.1 + 0.2 is
  0.30000000000000004, a tie goes to the even significand, and the divisions by zero give
  an infinity and \<^verbatim>\<open>NaN\<close>.
\<close>

lemma round_double_examples:
  "round_double (1 / 10) = Finite (3602879701896397 / 36028797018963968)"
  "js_add round_double (Finite (3602879701896397 / 36028797018963968))
     (Finite (3602879701896397 / 18014398509481984)) = Finite (1351079888211149 / 4503599627370496)"
  "round_double 9007199254740993 = Finite 9007199254740992"
  "round_double 9007199254740995 = Finite 9007199254740996"
  "js_div round_double (Finite 1) (Finite 0) = PosInfinity"
  "js_div round_double (Finite 0) (Finite 0) = NaN"
  "js_mul round_double (Finite 0) PosInfinity = NaN"
  "js_sub round_double PosInfinity PosInfinity = NaN"
  by (simp_all add: double_eval)

text \<open>
  The run of \<open>two_wins\<close> in double arithmetic. The second trade is entered at the equity
  1100 and wins 87.12871287128714; the final equity is 1187.1287128712872.
\<close>

lemma two_wins_run:
  "runBacktest_fp round_double two_wins [example_signal, second_signal] example_settings None =
     \<lparr>trades_fp =
        [\<lparr>signalTime_fp = 0, entryTime_fp = Some 0, exitTime_fp = Some 1, entryPrice_fp = 100,
          exitPrice_fp = Some 110, outcome_fp = Win, pnl_fp = Finite 100,
          equity_fp = Finite 1100, trade_type_fp = Bullish, slPrice_fp = 95, tpPrice_fp = 110,
          returnOnEquityPercent_fp = Finite 10, leverage_fp = Finite 1\<rparr>,
         \<lparr>signalTime_fp = 2, entryTime_fp = Some 2, exitTime_fp = Some 3, entryPrice_fp = 101,
          exitPrice_fp = Some 109, outcome_fp = Win,
          pnl_fp = Finite (6131138106568745 / 70368744177664),
          equity_fp = Finite (5221047293874947 / 4398046511104), trade_type_fp = Bullish,
          slPrice_fp = 97, tpPrice_fp = 109,
          returnOnEquityPercent_fp = Finite (1114752383012499 / 140737488355328),
          leverage_fp = Finite 1\<rparr>],
      maxDrawdown_fp = Finite 0, maxDrawdownAmount_fp = Finite 0,
      netProfitPercent_fp = Finite (5267205009734061 / 281474976710656),
      winRate_fp = Finite 100, profitFactor_fp = PosInfinity,
      finalEquity_fp = Finite (5221047293874947 / 4398046511104), totalTrades_fp = 2\<rparr>"
  by (simp add: backtest_fp_eval double_eval cong: let_weak_cong)

section \<open>Backtest Simulator: the claims\<close>

text \<open>
  The stop-loss check comes first: when the stop-loss condition holds on a candle for the
  active trade and its stop-loss price is not zero, the trade is closed as a loss at the
  stop-loss price whatever the take-profit condition says, and a trade closed as a win
  was closed on a candle on which the stop-loss condition did not hold.
\<close>

lemma stop_loss_first:
  assumes "activeTrade s = Some a" "a < length (executedTrades s)"
    and "hitSL candle (executedTrades s ! a)" "slPrice (executedTrades s ! a) \<noteq> 0"
  shows "outcome (executedTrades (close_phase settings candle s) ! a) = Loss \<and>
         exitPrice (executedTrades (close_phase settings candle s) ! a) = Some (slPrice (executedTrades s ! a))"
  using assms by (simp add: close_phase_def exit_check_def close_trade_fields)

lemma take_profit_without_stop_loss:
  assumes "activeTrade s = Some a" "a < length (executedTrades s)"
    and "outcome (executedTrades s ! a) = Open"
    and "outcome (executedTrades (close_phase settings candle s) ! a) = Win"
  shows "\<not> hitSL candle (executedTrades s ! a) \<and> hitTP candle (executedTrades s ! a)"
  using assms by (auto simp: close_phase_def exit_check_def close_trade_fields split: if_splits)

text \<open>
  Claim C2: when a candle triggers both the stop-loss and the take-profit of the active
  trade, the trade is closed as a loss at the stop-loss price. The source guards the
  closing with \<^verbatim>\<open>if (outcome && exitPrice)\<close>, which a stop-loss price of zero does not
  pass. A long trade with stop 0 and target 110 meets a candle with low 0 and high 111:
  both conditions hold, and the trade is still open after the run.
\<close>

theorem stop_loss_at_zero_stays_open:
  "map outcome (trades (runBacktest [mk_candle 0 100 101 99 100, mk_candle 1 100 111 0 100]
      [example_signal\<lparr>sig_stopLoss := 0\<rparr>] example_settings None)) = [Open] \<and>
   map slPrice (trades (runBacktest [mk_candle 0 100 101 99 100, mk_candle 1 100 111 0 100]
      [example_signal\<lparr>sig_stopLoss := 0\<rparr>] example_settings None)) = [0] \<and>
   map tpPrice (trades (runBacktest [mk_candle 0 100 101 99 100, mk_candle 1 100 111 0 100]
      [example_signal\<lparr>sig_stopLoss := 0\<rparr>] example_settings None)) = [110] \<and>
   c_low (mk_candle 1 100 111 0 100) \<le> 0 \<and> 110 \<le> c_high (mk_candle 1 100 111 0 100)"
  by (simp add: backtest_eval)

text \<open>
  Claim C3. At every candle step of the simulator, for every input, at most one trade of
  the accumulated list has the outcome \<open>Open\<close>; and when the next candle opens a new
  trade, no trade of the list is open once its exit check is done.
\<close>

theorem single_open_trade:
  "length (filter (\<lambda>t. outcome t = Open)
      (executedTrades (run_candles settings ltfData (initial_state tradeSignals settings startingEquity)))) \<le> 1 \<and>
   (length (executedTrades (run_candles settings ltfData (initial_state tradeSignals settings startingEquity)))
      < length (executedTrades (candle_step settings candle
          (run_candles settings ltfData (initial_state tradeSignals settings startingEquity)))) \<longrightarrow>
    (\<forall>t \<in> set (executedTrades (close_phase settings candle
          (run_candles settings ltfData (initial_state tradeSignals settings startingEquity)))).
       outcome t \<noteq> Open))"
proof -
  let ?s = "run_candles settings ltfData (initial_state tradeSignals settings startingEquity)"
  let ?s' = "close_phase settings candle ?s"
  have ok: "trades_ok ?s"
    using invariants_run [OF invariants_initial] by blast
  then have ok': "trades_ok ?s'" by (rule trades_ok_close_phase)
  have "\<forall>t \<in> set (executedTrades ?s'). outcome t \<noteq> Open"
    if "length (executedTrades ?s) < length (executedTrades (candle_step settings candle ?s))"
  proof -
    from that have "open_phase settings candle ?s' \<noteq> ?s'"
      by (auto simp: candle_step_def close_phase_length)
    with open_phase_cases [of settings candle ?s'] have "activeTrade ?s' = None" by blast
    with ok' show ?thesis by (simp add: trades_ok_def)
  qed
  with trades_ok_count [OF ok] show ?thesis by blast
qed

text \<open>
  The theorem at a run of two signals: the first trade is opened on the first candle and
  closed on the second, the third candle opens the second trade.
\<close>

theorem single_open_trade_witness:
  "length (executedTrades (run_candles example_settings
      [mk_candle 0 100 101 99 100, mk_candle 1 100 111 94 100]
      (initial_state [example_signal, example_signal\<lparr>sig_entryTime := 2\<rparr>] example_settings None)))
    < length (executedTrades (candle_step example_settings (mk_candle 2 100 101 99 100)
        (run_candles example_settings [mk_candle 0 100 101 99 100, mk_candle 1 100 111 94 100]
          (initial_state [example_signal, example_signal\<lparr>sig_entryTime := 2\<rparr>] example_settings None)))) \<and>
   Open \<notin> outcome ` set (executedTrades (close_phase example_settings (mk_candle 2 100 101 99 100)
        (run_candles example_settings [mk_candle 0 100 101 99 100, mk_candle 1 100 111 94 100]
          (initial_state [example_signal, example_signal\<lparr>sig_entryTime := 2\<rparr>] example_settings None))))"
proof -
  let ?s = "run_candles example_settings [mk_candle 0 100 101 99 100, mk_candle 1 100 111 94 100]
      (initial_state [example_signal, example_signal\<lparr>sig_entryTime := 2\<rparr>] example_settings None)"
  have lt: "length (executedTrades ?s)
    < length (executedTrades (candle_step example_settings (mk_candle 2 100 101 99 100) ?s))"
    by (simp add: backtest_eval)
  from single_open_trade [of example_settings "[mk_candle 0 100 101 99 100, mk_candle 1 100 111 94 100]"
      "[example_signal, example_signal\<lparr>sig_entryTime := 2\<rparr>]" None "mk_candle 2 100 101 99 100"]
  have "length (executedTrades ?s)
      < length (executedTrades (candle_step example_settings (mk_candle 2 100 101 99 100) ?s)) \<longrightarrow>
    (\<forall>t \<in> set (executedTrades (close_phase example_settings (mk_candle 2 100 101 99 100) ?s)).
       outcome t \<noteq> Open)"
    by (rule conjunct2)
  with lt have "\<forall>t \<in> set (executedTrades (close_phase example_settings (mk_candle 2 100 101 99 100) ?s)).
       outcome t \<noteq> Open"
    by (rule rev_mp)
  then have "Open \<notin> outcome ` set (executedTrades (close_phase example_settings (mk_candle 2 100 101 99 100) ?s))"
    by fastforce
  with lt show ?thesis by (rule conjI)
qed

text \<open>
  Claim C4 says that the final equity equals the initial capital plus the sum of the net
  profit and loss of the closed trades, exactly. The equity is changed by line 573 alone,
  \<^verbatim>\<open>equity += netPnl\<close>, in the block that stores \<^verbatim>\<open>netPnl\<close> in the \<^verbatim>\<open>pnl\<close> of the
  trade it closes. So for every run and whatever the rounding of the arithmetic, the
  returned final equity is the initial capital with the \<^verbatim>\<open>pnl\<close> of the closed trades
  added to it one trade after the other, in the order of the returned list, each addition
  being the addition of the source; this holds as an equality of values when a
  \<^verbatim>\<open>pnl\<close> is \<^verbatim>\<open>NaN\<close> as well.
\<close>

theorem final_equity_is_running_sum:
  "finalEquity_fp (runBacktest_fp rnd ltfData tradeSignals settings startingEquity) =
     foldl (js_add rnd) (Finite (initialCapitalForRun settings startingEquity))
       (closed_pnl_fp (runBacktest_fp rnd ltfData tradeSignals settings startingEquity))"
proof -
  have "equity_ok_fp rnd (initialCapitalForRun settings startingEquity)
      (run_candles_fp rnd settings ltfData (initial_state_fp tradeSignals settings startingEquity))"
    using invariants_fp_run [OF invariants_fp_initial] by blast
  then show ?thesis
    by (simp add: runBacktest_fp_def aggregate_fp_fields equity_ok_fp_def closed_pnl_fp_def)
qed

text \<open>
  In arithmetic without rounding that value is the initial capital plus the sum of the
  finite \<^verbatim>\<open>pnl\<close>.
\<close>

lemma exact_sum:
  "foldl (js_add Finite) (Finite c) (map Finite xs) = Finite (c + sum_list xs)"
  by (induction xs arbitrary: c) (simp_all add: add.assoc)

text \<open>
  In double arithmetic it is not: the additions round, and their order matters. On the
  run of \<open>two_wins\<close> the closed trades record the \<^verbatim>\<open>pnl\<close> 100 and 87.12871287128714
  and the final equity is (1000 + 100) + 87.12871287128714 = 1187.1287128712872, while
  the sum of the two \<^verbatim>\<open>pnl\<close> added to the initial capital,
  1000 + (100 + 87.12871287128714), is the neighbouring double 1187.128712871287; and the
  final equity is not the exact sum of the three numbers either, which is no double.
\<close>

theorem final_equity_differs_from_sum:
  "closed_pnl_fp (runBacktest_fp round_double two_wins [example_signal, second_signal] example_settings None)
     = [Finite 100, Finite (6131138106568745 / 70368744177664)] \<and>
   finalEquity_fp (runBacktest_fp round_double two_wins [example_signal, second_signal] example_settings None)
     = Finite (5221047293874947 / 4398046511104) \<and>
   js_add round_double (Finite (initialCapitalForRun example_settings None))
     (foldl (js_add round_double) (Finite 0)
        (closed_pnl_fp (runBacktest_fp round_double two_wins [example_signal, second_signal]
           example_settings None)))
     = Finite (2610523646937473 / 2199023255552) \<and>
   finalEquity_fp (runBacktest_fp round_double two_wins [example_signal, second_signal] example_settings None)
     \<noteq> js_add round_double (Finite (initialCapitalForRun example_settings None))
         (foldl (js_add round_double) (Finite 0)
            (closed_pnl_fp (runBacktest_fp round_double two_wins [example_signal, second_signal]
               example_settings None))) \<and>
   finalEquity_fp (runBacktest_fp round_double two_wins [example_signal, second_signal] example_settings None)
     \<noteq> Finite (initialCapitalForRun example_settings None
                  + (100 + 6131138106568745 / 70368744177664))"
  unfolding two_wins_run
  by (simp add: closed_pnl_fp_def initialCapitalForRun_def example_settings_def double_eval)

text \<open>
  Two more runs on which the double arithmetic decides the result. With an order size of
  5 percent, an entry at 60 and a stop at 57 the exact quotient of notional and equity is
  1, the double quotient is 1.0000000000000002, and the recorded leverage is 2. With an
  order size of 100 percent a first loss takes the equity to zero; the second trade is
  then entered with the leverage \<^verbatim>\<open>0 / 0\<close>, and its \<^verbatim>\<open>pnl\<close> and the final equity are
  \<^verbatim>\<open>NaN\<close>.
\<close>

lemma leverage_rounded_up:
  "map leverage_fp (trades_fp (runBacktest_fp round_double [mk_candle 0 60 61 59 60]
      [\<lparr>sig_entryTime = 0, sig_entryPrice = 60, sig_stopLoss = 57, sig_takeProfit = 66,
        sig_type = Bullish\<rparr>]
      (example_settings\<lparr>orderSizePercent := 5\<rparr>) None)) = [Finite 2] \<and>
   map leverage (trades (runBacktest [mk_candle 0 60 61 59 60]
      [\<lparr>sig_entryTime = 0, sig_entryPrice = 60, sig_stopLoss = 57, sig_takeProfit = 66,
        sig_type = Bullish\<rparr>]
      (example_settings\<lparr>orderSizePercent := 5\<rparr>) None)) = [1]"
  by (simp add: backtest_fp_eval double_eval backtest_eval cong: let_weak_cong)

lemma equity_zero_gives_nan:
  "map leverage_fp (trades_fp (runBacktest_fp round_double
      [mk_candle 0 100 101 99 100, mk_candle 1 100 100 94 95,
       mk_candle 2 100 101 99 100, mk_candle 3 100 111 100 110]
      [example_signal, example_signal\<lparr>sig_entryTime := 2\<rparr>]
      (example_settings\<lparr>orderSizePercent := 100\<rparr>) None)) = [Finite 20, NaN] \<and>
   closed_pnl_fp (runBacktest_fp round_double
      [mk_candle 0 100 101 99 100, mk_candle 1 100 100 94 95,
       mk_candle 2 100 101 99 100, mk_candle 3 100 111 100 110]
      [example_signal, example_signal\<lparr>sig_entryTime := 2\<rparr>]
      (example_settings\<lparr>orderSizePercent := 100\<rparr>) None) = [Finite (- 1000), NaN] \<and>
   finalEquity_fp (runBacktest_fp round_double
      [mk_candle 0 100 101 99 100, mk_candle 1 100 100 94 95,
       mk_candle 2 100 101 99 100, mk_candle 3 100 111 100 110]
      [example_signal, example_signal\<lparr>sig_entryTime := 2\<rparr>]
      (example_settings\<lparr>orderSizePercent := 100\<rparr>) None) = NaN"
  by (simp add: backtest_fp_eval double_eval cong: let_weak_cong)

text \<open>
  The run with a stop at zero and the run with an order size of zero percent, which this
  section evaluates in exact arithmetic, give the same results in double arithmetic: the
  trade with the stop at zero is still open after the candle that reaches the stop and
  the target, and the trade of order size zero records the leverage 0.
\<close>

lemma stop_at_zero_in_double_arithmetic:
  "map outcome_fp (trades_fp (runBacktest_fp round_double
      [mk_candle 0 100 101 99 100, mk_candle 1 100 111 0 100]
      [example_signal\<lparr>sig_stopLoss := 0\<rparr>] example_settings None)) = [Open]"
  by (simp add: backtest_fp_eval double_eval cong: let_weak_cong)

lemma order_size_zero_in_double_arithmetic:
  "map leverage_fp (trades_fp (runBacktest_fp round_double [mk_candle 0 100 101 99 100]
      [example_signal] (example_settings\<lparr>orderSizePercent := 0\<rparr>) None)) = [Finite 0] \<and>
   map outcome_fp (trades_fp (runBacktest_fp round_double [mk_candle 0 100 101 99 100]
      [example_signal] (example_settings\<lparr>orderSizePercent := 0\<rparr>) None)) = [Open]"
  by (simp add: backtest_fp_eval double_eval cong: let_weak_cong)

text \<open>
  The leverage of an opened trade is the ceiling of the position notional over the equity
  at entry, and it is at least 1 when the order size and the entry price are positive and
  the equity is not zero.
\<close>

lemma open_trade_leverage:
  assumes "open_trade settings candle equityBefore signal = Some t" "equityBefore \<noteq> 0"
  shows "leverage t =
     \<lceil>(equityBefore * (orderSizePercent settings / 100) / \<bar>sig_entryPrice signal - sig_stopLoss signal\<bar>
        * sig_entryPrice signal) / equityBefore\<rceil>"
  using assms by (auto simp: open_trade_def Let_def split: if_splits)

lemma leverage_at_least_one:
  assumes "open_trade settings candle equityBefore signal = Some t"
    and "0 < orderSizePercent settings" "0 < sig_entryPrice signal" "equityBefore \<noteq> 0"
  shows "1 \<le> leverage t"
proof -
  let ?risk = "\<bar>sig_entryPrice signal - sig_stopLoss signal\<bar>"
  from assms(1) have risk: "0 < ?risk"
    by (auto simp: open_trade_def Let_def split: if_splits)
  have "(equityBefore * (orderSizePercent settings / 100) / ?risk * sig_entryPrice signal) / equityBefore
        = (orderSizePercent settings / 100) * sig_entryPrice signal / ?risk"
    using assms(4) by simp
  moreover have "0 < (orderSizePercent settings / 100) * sig_entryPrice signal / ?risk"
    using assms(2,3) risk by simp
  ultimately have "0 < leverage t"
    unfolding open_trade_leverage [OF assms(1,4)] by (simp only: ceiling_less_iff less_ceiling_iff of_int_0)
  then show ?thesis by simp
qed

text \<open>
  Claim C5: the leverage recorded on every opened trade is the ceiling of notional over
  equity and at least 1. The source applies \<^verbatim>\<open>Math.ceil\<close> alone, where
  \<^verbatim>\<open>sendOrderToCoinEx\<close> applies \<^verbatim>\<open>Math.max(1, Math.ceil(...))\<close>. With an order size of
  0 percent and the commission filter off, the signal is filled and the trade records the
  leverage 0.
\<close>

theorem leverage_zero_at_zero_order_size:
  "map leverage (trades (runBacktest [mk_candle 0 100 101 99 100] [example_signal]
      (example_settings\<lparr>orderSizePercent := 0\<rparr>) None)) = [0] \<and>
   map outcome (trades (runBacktest [mk_candle 0 100 101 99 100] [example_signal]
      (example_settings\<lparr>orderSizePercent := 0\<rparr>) None)) = [Open]"
  by (simp add: backtest_eval)

text \<open>
  Claim C6. A run in which no trade is closed returns the zeroed result, with the final
  equity equal to the starting capital, also when a trade is still open at the end.
\<close>

theorem zero_closed_trades_result:
  assumes "\<forall>t \<in> set (trades (runBacktest ltfData tradeSignals settings startingEquity)). outcome t = Open"
  shows "runBacktest ltfData tradeSignals settings startingEquity =
     \<lparr>trades = trades (runBacktest ltfData tradeSignals settings startingEquity),
      maxDrawdown = 0, maxDrawdownAmount = 0, netProfitPercent = 0, winRate = 0,
      profitFactor = Num 0, finalEquity = initialCapitalForRun settings startingEquity,
      totalTrades = 0\<rparr>"
proof -
  let ?s = "run_candles settings ltfData (initial_state tradeSignals settings startingEquity)"
  from assms have "\<forall>t \<in> set (executedTrades ?s). outcome t = Open"
    by (simp add: runBacktest_def aggregate_fields)
  then have none: "filter (\<lambda>t. outcome t \<noteq> Open) (executedTrades ?s) = []"
    by (simp add: filter_empty_conv)
  have "equity_ok (initialCapitalForRun settings startingEquity) ?s"
    using invariants_run [OF invariants_initial] by blast
  with none have "st_equity ?s = initialCapitalForRun settings startingEquity"
    by (simp add: equity_ok_def closed_trades_def)
  with none show ?thesis
    by (simp add: runBacktest_def aggregate_def)
qed

text \<open>The theorem at a run of one candle, which opens a trade and leaves it open.\<close>

theorem zero_closed_trades_result_witness:
  "map outcome (trades (runBacktest [mk_candle 0 100 101 99 100] [example_signal] example_settings None))
      = [Open] \<and>
   runBacktest [mk_candle 0 100 101 99 100] [example_signal] example_settings None =
     \<lparr>trades = trades (runBacktest [mk_candle 0 100 101 99 100] [example_signal] example_settings None),
      maxDrawdown = 0, maxDrawdownAmount = 0, netProfitPercent = 0, winRate = 0,
      profitFactor = Num 0, finalEquity = initialCapitalForRun example_settings None,
      totalTrades = 0\<rparr>"
proof -
  let ?r = "runBacktest [mk_candle 0 100 101 99 100] [example_signal] example_settings None"
  have tr: "map outcome (trades ?r) = [Open]"
    by (simp add: backtest_eval)
  have "set (map outcome (trades ?r)) = {Open}" unfolding tr by simp
  then have all: "\<forall>t \<in> set (trades ?r). outcome t = Open" by auto
  from tr zero_closed_trades_result [OF all] show ?thesis by (rule conjI)
qed

text \<open>
  Claim C10. A trade is never closed on the candle on which it was opened: every trade
  that a candle step adds to the list is open at the end of that step, from any state;
  and on candles with strictly increasing times every closed trade of a run has an exit
  time after its entry time.
\<close>

theorem no_exit_on_entry_candle:
  "(\<forall>i. length (executedTrades s) \<le> i \<and> i < length (executedTrades (candle_step settings candle s)) \<longrightarrow>
      outcome (executedTrades (candle_step settings candle s) ! i) = Open) \<and>
   (sorted_wrt (<) (map c_time ltfData) \<longrightarrow>
      (\<forall>t \<in> set (trades (runBacktest ltfData tradeSignals settings startingEquity)).
         outcome t \<noteq> Open \<longrightarrow>
         (\<exists>te tx. entryTime t = Some te \<and> exitTime t = Some tx \<and> te < tx)))"
proof
  let ?s' = "close_phase settings candle s"
  show "\<forall>i. length (executedTrades s) \<le> i \<and> i < length (executedTrades (candle_step settings candle s)) \<longrightarrow>
      outcome (executedTrades (candle_step settings candle s) ! i) = Open"
    using open_phase_cases [of settings candle ?s']
  proof (elim disjE exE conjE)
    assume "open_phase settings candle ?s' = ?s'"
    then show ?thesis by (auto simp: candle_step_def close_phase_length)
  next
    fix t pending'
    assume t: "outcome t = Open"
      and eq: "open_phase settings candle ?s' =
        ?s'\<lparr>executedTrades := executedTrades ?s' @ [t],
          activeTrade := Some (length (executedTrades ?s')),
          pendingSignals := pending'\<rparr>"
    show ?thesis
      unfolding candle_step_def eq using t
      by (auto simp: close_phase_length nth_append less_Suc_eq)
  qed
next
  let ?init = "initial_state tradeSignals settings startingEquity"
  show "sorted_wrt (<) (map c_time ltfData) \<longrightarrow>
      (\<forall>t \<in> set (trades (runBacktest ltfData tradeSignals settings startingEquity)).
         outcome t \<noteq> Open \<longrightarrow>
         (\<exists>te tx. entryTime t = Some te \<and> exitTime t = Some tx \<and> te < tx))"
  proof
    assume sorted: "sorted_wrt (<) (map c_time ltfData)"
    have ok: "trades_ok ?init" by (rule invariants_initial)
    have "\<exists>now. times_ok now (run_candles settings ltfData ?init)"
    proof (cases ltfData)
      case Nil
      then show ?thesis by (simp add: run_candles_def times_ok_def initial_state_def)
    next
      case (Cons c cs)
      have t0: "times_ok (c_time c - 1) ?init" by (simp add: times_ok_def initial_state_def)
      have "\<forall>c' \<in> set ltfData. c_time c - 1 < c_time c'"
        using sorted unfolding Cons by auto
      from times_ok_run [OF ok t0 sorted this] show ?thesis .
    qed
    then show "\<forall>t \<in> set (trades (runBacktest ltfData tradeSignals settings startingEquity)).
         outcome t \<noteq> Open \<longrightarrow>
         (\<exists>te tx. entryTime t = Some te \<and> exitTime t = Some tx \<and> te < tx)"
      unfolding runBacktest_def aggregate_fields times_ok_def by blast
  qed
qed

text \<open>
  The theorem at a candle whose range holds the entry, the stop and the target: the trade
  it opens stays open, and is closed on the next candle.
\<close>

theorem no_exit_on_entry_candle_witness:
  "length (executedTrades (initial_state [example_signal] example_settings None)) \<le> 0 \<and>
   0 < length (executedTrades (candle_step example_settings (mk_candle 0 100 111 94 100)
         (initial_state [example_signal] example_settings None))) \<and>
   outcome (executedTrades (candle_step example_settings (mk_candle 0 100 111 94 100)
         (initial_state [example_signal] example_settings None)) ! 0) = Open \<and>
   sorted_wrt (<) (map c_time [mk_candle 0 100 111 94 100, mk_candle 1 100 111 94 100]) \<and>
   map outcome (trades (runBacktest [mk_candle 0 100 111 94 100, mk_candle 1 100 111 94 100]
      [example_signal] example_settings None)) = [Loss] \<and>
   (\<exists>t te tx. t \<in> set (trades (runBacktest [mk_candle 0 100 111 94 100, mk_candle 1 100 111 94 100]
        [example_signal] example_settings None)) \<and>
      outcome t = Loss \<and> entryTime t = Some te \<and> exitTime t = Some tx \<and> te < tx)"
proof -
  let ?s0 = "initial_state [example_signal] example_settings None"
  let ?c = "mk_candle 0 100 111 94 100"
  let ?r = "runBacktest [mk_candle 0 100 111 94 100, mk_candle 1 100 111 94 100]
      [example_signal] example_settings None"
  have a: "length (executedTrades ?s0) \<le> 0"
    and b: "0 < length (executedTrades (candle_step example_settings ?c ?s0))"
    by (simp_all add: backtest_eval)
  have c: "sorted_wrt (<) (map c_time [mk_candle 0 100 111 94 100, mk_candle 1 100 111 94 100])"
    by (simp add: mk_candle_def)
  have d: "map outcome (trades ?r) = [Loss]"
    by (simp add: backtest_eval)
  note inst = no_exit_on_entry_candle [of ?s0 example_settings ?c
      "[mk_candle 0 100 111 94 100, mk_candle 1 100 111 94 100]" "[example_signal]" None]
  from inst have "\<forall>i. length (executedTrades ?s0) \<le> i \<and>
        i < length (executedTrades (candle_step example_settings ?c ?s0)) \<longrightarrow>
      outcome (executedTrades (candle_step example_settings ?c ?s0) ! i) = Open"
    by (rule conjunct1)
  with a b have e: "outcome (executedTrades (candle_step example_settings ?c ?s0) ! 0) = Open"
    by simp
  from inst have "sorted_wrt (<) (map c_time [mk_candle 0 100 111 94 100, mk_candle 1 100 111 94 100]) \<longrightarrow>
      (\<forall>t \<in> set (trades ?r). outcome t \<noteq> Open \<longrightarrow>
         (\<exists>te tx. entryTime t = Some te \<and> exitTime t = Some tx \<and> te < tx))"
    by (rule conjunct2)
  with c have all: "\<forall>t \<in> set (trades ?r). outcome t \<noteq> Open \<longrightarrow>
         (\<exists>te tx. entryTime t = Some te \<and> exitTime t = Some tx \<and> te < tx)"
    by (rule rev_mp)
  from d obtain t where tr: "trades ?r = [t]" and t: "outcome t = Loss"
    by (auto simp: map_eq_Cons_conv)
  from tr have mem: "t \<in> set (trades ?r)" by simp
  with all t have "\<exists>te tx. entryTime t = Some te \<and> exitTime t = Some tx \<and> te < tx" by simp
  with mem t have f: "\<exists>t te tx. t \<in> set (trades ?r) \<and>
      outcome t = Loss \<and> entryTime t = Some te \<and> exitTime t = Some tx \<and> te < tx"
    by blast
  from a b e c d f show ?thesis by (intro conjI)
qed

section \<open>The parameter grid\<close>

text \<open>
  The range loop returns for a positive step, with the values \<open>start + k * step\<close> up to
  \<open>end\<close>, and does not return for a step that is zero or negative when \<open>start \<le> end\<close>.
\<close>

lemma range_loop_terminates:
  "0 < step \<Longrightarrow>
   range_loop v e step vals =
     Some (vals @ map (\<lambda>k. v + real k * step) [0..<nat (\<lfloor>(e - v) / step\<rfloor> + 1)])"
proof (induction "nat (\<lfloor>(e - v) / step\<rfloor> + 1)" arbitrary: v vals)
  case 0
  then have "\<lfloor>(e - v) / step\<rfloor> < 0" by linarith
  then have "(e - v) / step < 0" by (simp add: floor_less_iff)
  with 0 have "\<not> v \<le> e" by (simp add: divide_less_0_iff)
  with 0 show ?case by (subst range_loop.simps) simp
next
  case (Suc n)
  then have "0 \<le> \<lfloor>(e - v) / step\<rfloor>" by linarith
  then have "0 \<le> (e - v) / step" by (simp add: le_floor_iff)
  with Suc.prems have le: "v \<le> e" by (simp add: zero_le_divide_iff)
  have "(e - (v + step)) / step = (e - v) / step - 1"
    using Suc.prems by (simp add: field_simps)
  then have n: "n = nat (\<lfloor>(e - (v + step)) / step\<rfloor> + 1)"
    using Suc.hyps(2) by simp
  have upt: "[0..<Suc n] = 0 # map Suc [0..<n]"
    by (simp add: upt_conv_Cons map_Suc_upt del: upt_Suc)
  have "range_loop v e step vals = range_loop (v + step) e step (vals @ [v])"
    using le by (subst range_loop.simps) simp
  also have "\<dots> = Some ((vals @ [v]) @ map (\<lambda>k. v + step + real k * step) [0..<n])"
    using Suc.hyps(1) [OF n Suc.prems] n by simp
  also have "(vals @ [v]) @ map (\<lambda>k. v + step + real k * step) [0..<n] =
      vals @ map (\<lambda>k. v + real k * step) [0..<Suc n]"
    unfolding upt by (simp add: algebra_simps comp_def)
  finally show ?case using Suc.hyps(2) by simp
qed

lemma range_loop_diverges:
  assumes "step \<le> 0"
  shows "v \<le> e \<Longrightarrow> range_loop v e step vals = None"
proof -
  have "\<forall>v vals. v \<le> e \<longrightarrow> range_loop v e step vals = None"
  proof (rule range_loop.fixp_induct)
    show "ccpo.admissible (fun_lub (flat_lub None)) (fun_ord option_ord)
       (\<lambda>f. \<forall>v vals. v \<le> e \<longrightarrow> curry (curry (curry f)) v e step vals = None)"
      by (rule ccpo.admissibleI) (auto simp: fun_lub_def flat_lub_def)
  next
    show "\<forall>v vals. v \<le> e \<longrightarrow> None = (None :: real list option)" by simp
  next
    fix f :: "real \<Rightarrow> real \<Rightarrow> real \<Rightarrow> real list \<Rightarrow> real list option"
    assume "\<forall>v vals. v \<le> e \<longrightarrow> f v e step vals = None"
    then show "\<forall>v vals. v \<le> e \<longrightarrow>
        (if v \<le> e then f (v + step) e step (vals @ [v]) else Some vals) = None"
      using assms by (simp add: add_increasing2)
  qed
  then show "v \<le> e \<Longrightarrow> range_loop v e step vals = None" by blast
qed




section \<open>Sorting with a comparator\<close>

lemma mset_insort_cmp: "mset (insort_cmp cmp x ys) = add_mset x (mset ys)"
  by (induction ys) simp_all

lemma mset_js_sort: "mset (js_sort cmp xs) = mset xs"
  unfolding js_sort_def by (induction xs) (simp_all add: mset_insort_cmp)


lemma length_js_sort: "length (js_sort cmp xs) = length xs"
  using mset_js_sort [of cmp xs] by (metis size_mset)









lemma js_sort_profit_factor_example:
  "js_sort (\<lambda>a b. sub_cmp b a) [Num 2, Infinity, Num 1, Infinity, Num 3] =
     [Infinity, Infinity, Num 3, Num 2, Num 1]"
  by (simp add: js_sort_def num_cmp_def)

section \<open>The analysis returns on natural lookbacks\<close>

text \<open>
  With a lookback that is not a natural number the Swing Detector reads \<^verbatim>\<open>data[i]\<close> at an
  \<open>i\<close> that is no index, on any series long enough to pass its first test.
\<close>

lemma fractional_lookback_throws:
  "findSwingPoints [mk_candle 0 1 1 1 1, mk_candle 1 1 3 0 1, mk_candle 2 1 2 2 1, mk_candle 3 1 2 2 1] (3/2)
     = Inl TypeError"
  apply (simp add: findSwingPoints_def)
  apply (subst outer_loop.simps)
  apply (simp add: ebind_def)
  apply (subst inner_loop.simps)
  apply (simp add: ebind_def not_high_def or_else_def elem_def at_index_def)
  done








section \<open>Optimizer: the claims\<close>







text \<open>
  A swept lookback of one and a half: the run of the one combination throws, and so
  does the optimizer.
\<close>

lemma optimizer_fractional_lookback_throws:
  "runOptimizer
     \<lparr>htf = [mk_candle 0 1 1 1 1, mk_candle 1 1 3 0 1, mk_candle 2 1 2 2 1, mk_candle 3 1 2 2 1],
      mtf = replicate 10 (mk_candle 0 1 1 1 1), ltf = replicate 10 (mk_candle 0 1 1 1 1)\<rparr>
     example_settings
     \<lparr>opt_htfSwingLookback = \<lparr>p_enabled = True, p_start = 3/2, p_end = 3/2, p_step = 1\<rparr>,
      opt_ltfChochLookback = disabled_parameter, opt_discountZone = disabled_parameter,
      opt_rrRatio = disabled_parameter, targetMetric = M_netProfitPercent\<rparr>
   = Some (Inl TypeError)"
proof -
  have gen: "generateCombinations
     \<lparr>opt_htfSwingLookback = \<lparr>p_enabled = True, p_start = 3/2, p_end = 3/2, p_step = 1\<rparr>,
      opt_ltfChochLookback = disabled_parameter, opt_discountZone = disabled_parameter,
      opt_rrRatio = disabled_parameter, targetMetric = M_netProfitPercent\<rparr> example_settings
    = Some [set_param K_htfSwingLookback (3/2) empty_params]"
    by (simp add: generateCombinations_def paramsToOptimize_def add_param_def
        disabled_parameter_def range_loop_terminates)
  have lb: "htfSwingLookback (apply_params example_settings (set_param K_htfSwingLookback (3/2) empty_params)) = 3/2"
    by (simp add: apply_params_def empty_params_def)
  have "analyzeSMC
     \<lparr>htf = [mk_candle 0 1 1 1 1, mk_candle 1 1 3 0 1, mk_candle 2 1 2 2 1, mk_candle 3 1 2 2 1],
      mtf = replicate 10 (mk_candle 0 1 1 1 1), ltf = replicate 10 (mk_candle 0 1 1 1 1)\<rparr>
     (apply_params example_settings (set_param K_htfSwingLookback (3/2) empty_params)) = Inl TypeError"
    unfolding analyzeSMC_def lb by (simp add: fractional_lookback_throws ebind_def)
  then have "run_combination
     \<lparr>htf = [mk_candle 0 1 1 1 1, mk_candle 1 1 3 0 1, mk_candle 2 1 2 2 1, mk_candle 3 1 2 2 1],
      mtf = replicate 10 (mk_candle 0 1 1 1 1), ltf = replicate 10 (mk_candle 0 1 1 1 1)\<rparr>
     example_settings 0 (set_param K_htfSwingLookback (3/2) empty_params) = Inl TypeError"
    unfolding run_combination_def Let_def by (simp add: ebind_def)
  then show ?thesis
    unfolding runOptimizer_def gen by (simp add: ebind_def)
qed




















end
